theory Spec2Isabelle
  imports Complex_Main
begin

section \<open>The operating system as seen by the launcher\<close>

text \<open>
  The launcher of \<^verbatim>\<open>exec_path_args.cxx\<close> talks to the kernel through system calls.
  Each call the code issues is recorded in a log, and the kernel's answer to the
  \<open>k\<close>-th call is read from an arbitrary function \<open>answers\<close>: the theorems below hold
  for every behaviour of the kernel unless they say otherwise.
\<close>

datatype os_call =
    sys_pipe
  | sys_fork
  | sys_close int
  | sys_dup2 int int
  | sys_execv "string option" "string option list"
  | sys_exit int
  | sys_clock_gettime
  | sys_pidfd_open int
  | sys_poll int int
  | sys_waitid int bool
  | sys_kill int int
  | sys_write int string
  | sys_ioctl_FIONREAD int
  | sys_read int int

record os_reply =
  r_ret :: int
  r_errno :: int
  r_fds :: "int \<times> int"
  r_avail :: int
  r_bytes :: string
  r_si_pid :: int
  r_si_code :: int
  r_si_status :: int
  r_tv_sec :: int
  r_tv_nsec :: int

record world =
  answers :: "nat \<Rightarrow> os_reply"
  calls :: "os_call list"
  cerr :: "string list"
  strerror :: "int \<Rightarrow> string"

definition os :: "os_call \<Rightarrow> world \<Rightarrow> os_reply \<times> world" where
  "os c w = (answers w (length (calls w)), w\<lparr>calls := calls w @ [c]\<rparr>)"

text \<open>Constants of the Linux headers the code uses.\<close>

definition EINTR :: int where "EINTR = 4"
definition EIO :: int where "EIO = 5"
definition EBADF :: int where "EBADF = 9"
definition SIGKILL :: int where "SIGKILL = 9"
definition CLD_EXITED :: int where "CLD_EXITED = 1"
definition CLD_KILLED :: int where "CLD_KILLED = 2"
definition CLD_DUMPED :: int where "CLD_DUMPED = 3"
definition EXIT_FAILURE :: int where "EXIT_FAILURE = 1"
definition STDIN_FILENO :: int where "STDIN_FILENO = 0"
definition STDOUT_FILENO :: int where "STDOUT_FILENO = 1"
definition STDERR_FILENO :: int where "STDERR_FILENO = 2"

section \<open>Errors and outcomes\<close>

text \<open>
  Every failure of the source is a \<^verbatim>\<open>std::runtime_error\<close> carrying a message. The
  constructor records which family of the error taxonomy the throwing site belongs to:
  a state check, a failed system call, a short read, or a consistency failure.
  \<open>NoReturn\<close> is a call that never comes back to its caller: the child side of
  \<^verbatim>\<open>fork\<close> (image replaced or \<^verbatim>\<open>_Exit\<close>), or \<^verbatim>\<open>std::terminate\<close>.
\<close>

datatype error =
    InvalidState string
  | SyscallError string
  | ShortRead string
  | Fatal string

datatype 'a outcome = Return 'a | Throw error | NoReturn

section \<open>The syscall result checker (\<^verbatim>\<open>syscall_helper.cxx\<close>, \<^verbatim>\<open>syscall_helper.hxx\<close>)\<close>

text \<open>\<^verbatim>\<open>std::to_string\<close> on an integer: decimal digits, a minus sign when negative.\<close>

definition digit_char :: "nat \<Rightarrow> char" where
  "digit_char d = ''0123456789'' ! d"

function to_string_nat :: "nat \<Rightarrow> string" where
  "to_string_nat n =
     (if n < 10 then [digit_char n] else to_string_nat (n div 10) @ [digit_char (n mod 10)])"
  by pat_completeness auto
termination
  by (relation "measure id") auto

definition to_string :: "int \<Rightarrow> string" where
  "to_string i = (if i < 0 then CHR ''-'' # to_string_nat (nat (- i)) else to_string_nat (nat i))"

text \<open>
  \<^verbatim>\<open>static_cast<int>(syscall_ret)\<close>: the helper template narrows its argument, whatever
  its type \<^verbatim>\<open>ret_t\<close> (\<^verbatim>\<open>int\<close> or \<^verbatim>\<open>ssize_t\<close> in this program), to a 32-bit \<^verbatim>\<open>int\<close>
  before the check. The narrowing keeps the low 32 bits, read as two's complement.
\<close>

definition static_cast_int :: "int \<Rightarrow> int" where
  "static_cast_int x = (x + 2 ^ 31) mod 2 ^ 32 - 2 ^ 31"

text \<open>
  \<^verbatim>\<open>check_syscall_ret_val(file, line, syscall_ret)\<close>: \<open>None\<close> when it returns, the
  exception when it throws. \<open>errno_val\<close> is what \<^verbatim>\<open>current_errno()\<close> reads at that
  moment, \<open>strerr\<close> is the C library's \<^verbatim>\<open>strerror\<close>.
\<close>

definition check_syscall_ret_val ::
  "(int \<Rightarrow> string) \<Rightarrow> int \<Rightarrow> string \<Rightarrow> int \<Rightarrow> int \<Rightarrow> error option" where
  "check_syscall_ret_val strerr errno_val file line syscall_ret =
     (if syscall_ret < 0 then
        Some (SyscallError (file @ '':'' @ to_string line @
          '': syscall failed - return code '' @ to_string syscall_ret @
          '', errno '' @ to_string errno_val @ '' ~ \"'' @ strerr errno_val @ ''\"''))
      else None)"

definition syscall_helper ::
  "(int \<Rightarrow> string) \<Rightarrow> int \<Rightarrow> string \<Rightarrow> int \<Rightarrow> int \<Rightarrow> int outcome" where
  "syscall_helper strerr errno_val file line syscall_ret =
     (case check_syscall_ret_val strerr errno_val file line (static_cast_int syscall_ret) of
        Some e \<Rightarrow> Throw e
      | None \<Rightarrow> Return syscall_ret)"

section \<open>Building the argument vector (\<^verbatim>\<open>build_args_cstr\<close>)\<close>

text \<open>
  \<^verbatim>\<open>strdup(s.c_str())\<close> copies the characters of \<open>s\<close> up to, not including, the first
  NUL byte: a \<^verbatim>\<open>std::string\<close> may hold NUL bytes, a C string ends at the first one.
  An entry of the array is \<open>Some\<close> C string or \<open>None\<close> for \<^verbatim>\<open>nullptr\<close>.
\<close>

definition strdup_c_str :: "string \<Rightarrow> string" where
  "strdup_c_str s = takeWhile (\<lambda>c. c \<noteq> CHR 0x00) s"

definition build_args_cstr :: "string \<Rightarrow> string list \<Rightarrow> string option list" where
  "build_args_cstr path args =
     (let num_args = length args;
          arr0 = replicate (num_args + 2) None;
          arr1 = arr0[0 := Some (strdup_c_str path)];
          arr2 = fold (\<lambda>i arr. arr[i + 1 := Some (strdup_c_str (args ! i))]) [0..<num_args] arr1
      in arr2[num_args + 1 := None])"

section \<open>The pipe pair (\<^verbatim>\<open>pipe_helper.hxx\<close>, \<^verbatim>\<open>pipe_helper.cxx\<close>)\<close>

definition invalid_fd :: int where
  "invalid_fd = - 1"

text \<open>\<open>fds0\<close> is \<^verbatim>\<open>fds[0]\<close>, the read end ("out"); \<open>fds1\<close> is \<^verbatim>\<open>fds[1]\<close>, the write end ("in").\<close>

record pipe_helper =
  fds0 :: int
  fds1 :: int

definition pipe_helper_default :: pipe_helper where
  "pipe_helper_default = \<lparr>fds0 = invalid_fd, fds1 = invalid_fd\<rparr>"

definition get_out :: "pipe_helper \<Rightarrow> int" where
  "get_out p = fds0 p"

definition get_in :: "pipe_helper \<Rightarrow> int" where
  "get_in p = fds1 p"

text \<open>The diagnostic \<^verbatim>\<open>close_fd\<close> prints on \<^verbatim>\<open>std::cerr\<close> when \<^verbatim>\<open>close\<close> returns -1.\<close>

definition close_diag :: "int \<Rightarrow> string" where
  "close_diag errno_val =
     (if errno_val = EBADF then ''`close` failed - invalid file descriptor!\<newline>''
      else if errno_val = EINTR then ''`close` failed - was interrupted by a signal!\<newline>''
      else if errno_val = EIO then ''`close` failed - I/O error occurred!\<newline>''
      else ''`close` failed - by https://linux.die.net/man/2/close unspecified `errno` '' @
           to_string errno_val @ ''!\<newline>'')"

text \<open>
  \<^verbatim>\<open>close_fd(int &fd) noexcept\<close>: the new value of \<open>fd\<close> and the world after it. There
  is no exceptional outcome: the function has none.
\<close>

definition close_fd :: "int \<Rightarrow> world \<Rightarrow> int \<times> world" where
  "close_fd fd w =
     (if fd \<noteq> invalid_fd then
        (let (r, w1) = os (sys_close fd) w;
             w2 = (if r_ret r = - 1 then w1\<lparr>cerr := cerr w1 @ [close_diag (r_errno r)]\<rparr> else w1)
         in (invalid_fd, w2))
      else (fd, w))"

definition close_out :: "pipe_helper \<Rightarrow> world \<Rightarrow> pipe_helper \<times> world" where
  "close_out p w = (let (fd, w') = close_fd (fds0 p) w in (p\<lparr>fds0 := fd\<rparr>, w'))"

definition close_in :: "pipe_helper \<Rightarrow> world \<Rightarrow> pipe_helper \<times> world" where
  "close_in p w = (let (fd, w') = close_fd (fds1 p) w in (p\<lparr>fds1 := fd\<rparr>, w'))"

text \<open>
  \<^verbatim>\<open>pipe_helper::init\<close>: \<^verbatim>\<open>pipe(fds)\<close> stores the two descriptors when it succeeds and
  leaves the array alone when it fails; its result goes through the checker (line 66).
\<close>

definition pipe_helper_cxx :: string where
  "pipe_helper_cxx = ''src/pipe_helper.cxx''"

definition pipe_init :: "pipe_helper \<Rightarrow> world \<Rightarrow> unit outcome \<times> pipe_helper \<times> world" where
  "pipe_init p w =
     (let (r, w') = os sys_pipe w;
          p' = (if 0 \<le> r_ret r then p\<lparr>fds0 := fst (r_fds r), fds1 := snd (r_fds r)\<rparr> else p)
      in case syscall_helper (strerror w') (r_errno r) pipe_helper_cxx 66 (r_ret r) of
           Return _ \<Rightarrow> (Return (), p', w')
         | Throw e \<Rightarrow> (Throw e, p', w')
         | NoReturn \<Rightarrow> (NoReturn, p', w'))"

text \<open>The move constructor: the new object and what is left of \<open>rhs\<close>.\<close>

definition pipe_helper_move :: "pipe_helper \<Rightarrow> pipe_helper \<times> pipe_helper" where
  "pipe_helper_move rhs =
     (\<lparr>fds0 = fds0 rhs, fds1 = fds1 rhs\<rparr>, rhs\<lparr>fds0 := invalid_fd, fds1 := invalid_fd\<rparr>)"

text \<open>The destructor: \<^verbatim>\<open>close_out(); close_in();\<close>. Only the world survives it.\<close>

definition pipe_helper_dtor :: "pipe_helper \<Rightarrow> world \<Rightarrow> world" where
  "pipe_helper_dtor p w =
     (let (p1, w1) = close_out p w; (p2, w2) = close_in p1 w1 in w2)"

section \<open>The launcher (\<^verbatim>\<open>exec_path_args.hxx\<close>, \<^verbatim>\<open>exec_path_args.cxx\<close>)\<close>

text \<open>The enumeration \<^verbatim>\<open>state\<close>, with the source's spelling of its first value.\<close>

datatype state = uninitialzied | ready | running | finished

record exec_path_args =
  path :: string
  args :: "string list"
  time_spawned_ns :: int
  time_finished_ns :: int
  handle :: int
  stdin_pipe :: pipe_helper
  stdout_pipe :: pipe_helper
  stderr_pipe :: pipe_helper
  current_state :: state
  return_code :: int
  stdout_buffer :: string
  stdout_consumed_bytes :: int
  stderr_buffer :: string
  stderr_consumed_bytes :: int

text \<open>
  The header \<^verbatim>\<open>process_handle_t.hxx\<close>, which declares the sentinel
  \<^verbatim>\<open>invalid_process_handle\<close>, is not among the sources: every definition that reads the
  sentinel takes it as its first parameter \<open>iph\<close>.
\<close>

definition default_ctor :: "int \<Rightarrow> exec_path_args" where
  "default_ctor iph =
     \<lparr>path = [], args = [], time_spawned_ns = 0, time_finished_ns = 0, handle = iph,
      stdin_pipe = pipe_helper_default, stdout_pipe = pipe_helper_default,
      stderr_pipe = pipe_helper_default, current_state = uninitialzied, return_code = 0,
      stdout_buffer = [], stdout_consumed_bytes = 0,
      stderr_buffer = [], stderr_consumed_bytes = 0\<rparr>"

definition ctor :: "int \<Rightarrow> string \<Rightarrow> string list \<Rightarrow> exec_path_args" where
  "ctor iph aPath aArgs = (default_ctor iph)\<lparr>path := aPath, args := aArgs, current_state := ready\<rparr>"

definition manages_process :: "int \<Rightarrow> exec_path_args \<Rightarrow> bool" where
  "manages_process iph l = (handle l \<noteq> iph)"

definition is_finished :: "exec_path_args \<Rightarrow> bool" where
  "is_finished l = (current_state l = finished)"

definition get_process_handle :: "exec_path_args \<Rightarrow> int" where
  "get_process_handle l = handle l"

subsection \<open>Sequencing\<close>

text \<open>
  A member function is a function from the launcher and the world to an outcome and the
  launcher and world it leaves behind: what the code changed before it threw stays changed.
\<close>

type_synonym sys = "exec_path_args \<times> world"
type_synonym 'a prog = "sys \<Rightarrow> 'a outcome \<times> sys"

definition succeed :: "'a \<Rightarrow> 'a prog" where
  "succeed x s = (Return x, s)"

definition throw :: "error \<Rightarrow> 'a prog" where
  "throw e s = (Throw e, s)"

definition and_then :: "'a prog \<Rightarrow> ('a \<Rightarrow> 'b prog) \<Rightarrow> 'b prog" where
  "and_then m f s =
     (case m s of
        (Return x, s') \<Rightarrow> f x s'
      | (Throw e, s') \<Rightarrow> (Throw e, s')
      | (NoReturn, s') \<Rightarrow> (NoReturn, s'))"

definition modify :: "(exec_path_args \<Rightarrow> exec_path_args) \<Rightarrow> unit prog" where
  "modify f s = (Return (), (f (fst s), snd s))"

definition exec_path_args_cxx :: string where
  "exec_path_args_cxx = ''src/exec_path_args.cxx''"

text \<open>
  \<^verbatim>\<open>EXEC_PATH_ARGS_SYSCALL_HELPER(fn)\<close> at a line of \<^verbatim>\<open>exec_path_args.cxx\<close>: issue the
  call, then pass its return value through \<open>syscall_helper\<close>. The whole reply is handed
  on, for the calls that also fill a buffer. \<^verbatim>\<open>__FILE__\<close> is the path the compiler was
  given, written here as the file's path in the repository; \<^verbatim>\<open>__LINE__\<close> is the line
  on which the macro is used.
\<close>

definition checked :: "int \<Rightarrow> os_call \<Rightarrow> os_reply prog" where
  "checked line c s =
     (let (r, w') = os c (snd s)
      in case syscall_helper (strerror w') (r_errno r) exec_path_args_cxx line (r_ret r) of
           Return _ \<Rightarrow> (Return r, (fst s, w'))
         | Throw e \<Rightarrow> (Throw e, (fst s, w'))
         | NoReturn \<Rightarrow> (NoReturn, (fst s, w')))"

text \<open>\<^verbatim>\<open>now_ns()\<close>: \<^verbatim>\<open>clock_gettime(CLOCK_MONOTONIC, &t)\<close>, unchecked.\<close>

definition now_ns :: "int prog" where
  "now_ns s = (let (r, w') = os sys_clock_gettime (snd s)
               in (Return (r_tv_sec r * 1000000000 + r_tv_nsec r), (fst s, w')))"

text \<open>Running a member function of one of the three pipes inside the launcher.\<close>

definition on_stdin_pipe :: "(pipe_helper \<Rightarrow> world \<Rightarrow> pipe_helper \<times> world) \<Rightarrow> unit prog" where
  "on_stdin_pipe f s =
     (let (p, w') = f (stdin_pipe (fst s)) (snd s) in (Return (), ((fst s)\<lparr>stdin_pipe := p\<rparr>, w')))"

definition on_stdout_pipe :: "(pipe_helper \<Rightarrow> world \<Rightarrow> pipe_helper \<times> world) \<Rightarrow> unit prog" where
  "on_stdout_pipe f s =
     (let (p, w') = f (stdout_pipe (fst s)) (snd s) in (Return (), ((fst s)\<lparr>stdout_pipe := p\<rparr>, w')))"

definition on_stderr_pipe :: "(pipe_helper \<Rightarrow> world \<Rightarrow> pipe_helper \<times> world) \<Rightarrow> unit prog" where
  "on_stderr_pipe f s =
     (let (p, w') = f (stderr_pipe (fst s)) (snd s) in (Return (), ((fst s)\<lparr>stderr_pipe := p\<rparr>, w')))"

definition init_stdin :: "unit prog" where
  "init_stdin s =
     (let (out, p, w') = pipe_init (stdin_pipe (fst s)) (snd s)
      in (out, ((fst s)\<lparr>stdin_pipe := p\<rparr>, w')))"

definition init_stdout :: "unit prog" where
  "init_stdout s =
     (let (out, p, w') = pipe_init (stdout_pipe (fst s)) (snd s)
      in (out, ((fst s)\<lparr>stdout_pipe := p\<rparr>, w')))"

definition init_stderr :: "unit prog" where
  "init_stderr s =
     (let (out, p, w') = pipe_init (stderr_pipe (fst s)) (snd s)
      in (out, ((fst s)\<lparr>stderr_pipe := p\<rparr>, w')))"

subsection \<open>Spawning: the \<^verbatim>\<open>ready\<close> branch of \<^verbatim>\<open>update_and_get_state\<close>\<close>

definition what :: "error \<Rightarrow> string" where
  "what e = (case e of InvalidState m \<Rightarrow> m | SyscallError m \<Rightarrow> m | ShortRead m \<Rightarrow> m | Fatal m \<Rightarrow> m)"

text \<open>The \<^verbatim>\<open>try\<close> block of \<^verbatim>\<open>exec_in_child\<close> (lines 338 to 348).\<close>

definition exec_in_child_try :: "string option list \<Rightarrow> unit prog" where
  "exec_in_child_try argv =
     and_then (on_stdin_pipe close_in) (\<lambda>_.
     and_then (\<lambda>s. checked 339 (sys_dup2 (get_out (stdin_pipe (fst s))) STDIN_FILENO) s) (\<lambda>_.
     and_then (on_stdout_pipe close_out) (\<lambda>_.
     and_then (\<lambda>s. checked 342 (sys_dup2 (get_in (stdout_pipe (fst s))) STDOUT_FILENO) s) (\<lambda>_.
     and_then (on_stderr_pipe close_out) (\<lambda>_.
     and_then (\<lambda>s. checked 345 (sys_dup2 (get_in (stderr_pipe (fst s))) STDERR_FILENO) s) (\<lambda>_.
     and_then (checked 348 (sys_execv (argv ! 0) argv)) (\<lambda>_. succeed ())))))))"

text \<open>
  \<^verbatim>\<open>exec_in_child\<close> never returns. A failure inside the \<^verbatim>\<open>try\<close> block is caught,
  reported on \<^verbatim>\<open>std::cerr\<close> and followed by \<^verbatim>\<open>std::_Exit(EXIT_FAILURE)\<close>. \<^verbatim>\<open>execv\<close>
  comes back only when it failed: a non-negative answer to it stands for the image
  having been replaced, after which none of this code runs.
\<close>

definition exec_in_child :: "string option list \<Rightarrow> 'a prog" where
  "exec_in_child argv s =
     (case exec_in_child_try argv s of
        (Throw e, (l, w)) \<Rightarrow>
          (let w1 = w\<lparr>cerr := cerr w @ [''child process failed - caught exception: '' @ what e @ ''\<newline>'']\<rparr>;
               (r, w2) = os (sys_exit EXIT_FAILURE) w1
           in (NoReturn, (l, w2)))
      | (Return _, s') \<Rightarrow> (NoReturn, s')
      | (NoReturn, s') \<Rightarrow> (NoReturn, s'))"

definition spawn :: "unit prog" where
  "spawn =
     and_then init_stdin (\<lambda>_.
     and_then init_stdout (\<lambda>_.
     and_then init_stderr (\<lambda>_.
     and_then (\<lambda>s. succeed (build_args_cstr (path (fst s)) (args (fst s))) s) (\<lambda>argv.
     and_then (checked 156 sys_fork) (\<lambda>pid.
       if r_ret pid = 0 then exec_in_child argv
       else
         and_then (on_stdin_pipe close_out) (\<lambda>_.
         and_then (on_stdout_pipe close_in) (\<lambda>_.
         and_then (on_stderr_pipe close_in) (\<lambda>_.
         and_then now_ns (\<lambda>t.
         modify (\<lambda>l. l\<lparr>time_spawned_ns := t, handle := r_ret pid,
                         current_state := running\<rparr>))))))))))"

subsection \<open>Reaping: \<^verbatim>\<open>query_status\<close>\<close>

text \<open>
  \<open>sys_waitid h b\<close> is \<^verbatim>\<open>waitid(P_PID, h, &status, WEXITED | (b ? 0 : WNOHANG))\<close>: the
  call blocks when \<open>b\<close> holds.
\<close>

definition query_status :: "int \<Rightarrow> bool \<Rightarrow> unit prog" where
  "query_status iph wait_for_finishing s =
     (if \<not> manages_process iph (fst s) then
        throw (InvalidState ''can't query status - process handle is invalid!'') s
      else if current_state (fst s) = running then
        and_then (checked 382 (sys_waitid (handle (fst s)) wait_for_finishing)) (\<lambda>status.
          if r_si_pid status \<noteq> 0 \<and>
             (r_si_code status = CLD_EXITED \<or> r_si_code status = CLD_KILLED \<or>
              r_si_code status = CLD_DUMPED)
          then
            (\<lambda>s'. if r_si_pid status \<noteq> handle (fst s') then
               throw (Fatal ''waitid returned unexpected pid - different from the managed one!'') s'
             else
               and_then now_ns (\<lambda>t.
                 modify (\<lambda>l. l\<lparr>time_finished_ns := t, current_state := finished,
                                 return_code := r_si_status status\<rparr>)) s')
          else succeed ()) s
      else if current_state (fst s) = finished then succeed () s
      else throw (InvalidState ''cannot wait for pid - process isn't running or finished!'') s)"

subsection \<open>\<^verbatim>\<open>update_and_get_state\<close>\<close>

record states =
  previous :: state
  current :: state

text \<open>
  The \<^verbatim>\<open>running\<close> branch (lines 181 to 205). The result of \<^verbatim>\<open>pidfd_open\<close> is narrowed to
  \<^verbatim>\<open>int\<close> before it is checked and used; the descriptor is polled for \<^verbatim>\<open>POLLIN\<close>.
\<close>

definition update_running :: "int \<Rightarrow> int \<Rightarrow> unit prog" where
  "update_running iph timeout_until_it_finishes_ms s =
     (if \<not> manages_process iph (fst s) then
        throw (InvalidState ''cannot update state - process handle is invalid!'') s
      else
        and_then (checked 187 (sys_pidfd_open (handle (fst s)))) (\<lambda>pid_fd.
        and_then (checked 194 (sys_poll (static_cast_int (r_ret pid_fd)) timeout_until_it_finishes_ms))
          (\<lambda>poll_res.
        and_then (if r_ret poll_res = 1 then query_status iph False else succeed ()) (\<lambda>_ s'.
          if timeout_until_it_finishes_ms < 0 \<and> current_state (fst s') \<noteq> finished then
            throw (Fatal ''failed to wait for child process to finish without any timeout!'') s'
          else succeed () s'))) s)"

text \<open>
  The function calls itself once, from the \<^verbatim>\<open>ready\<close> branch with a timeout other
  than 0, after the state has become \<^verbatim>\<open>running\<close>: that is why it terminates. The
  \<^verbatim>\<open>default\<close> branch of the switch has no counterpart: the four values are all there are.
\<close>

lemma and_then_Return_D:
  "and_then m f s = (Return y, s2) \<Longrightarrow> \<exists>x s1. m s = (Return x, s1) \<and> f x s1 = (Return y, s2)"
  by (auto simp: and_then_def split: prod.splits outcome.splits)

lemma exec_in_child_not_Return: "exec_in_child argv s \<noteq> (Return x, s')"
  by (auto simp: exec_in_child_def Let_def split: prod.splits outcome.splits)

lemma spawn_Return_running:
  assumes "spawn s = (Return x, s1)"
  shows "current_state (fst s1) = running"
  using assms unfolding spawn_def
  by (auto dest!: and_then_Return_D simp: modify_def exec_in_child_not_Return split: if_splits)

function update_and_get_state :: "int \<Rightarrow> int \<Rightarrow> states prog" where
  "update_and_get_state iph timeout_until_it_finishes_ms s =
     (let previous_state = current_state (fst s) in
      case current_state (fst s) of
        ready \<Rightarrow>
          (case spawn s of
             (Return _, s1) \<Rightarrow>
               if timeout_until_it_finishes_ms \<noteq> 0 then
                 (case update_and_get_state iph timeout_until_it_finishes_ms s1 of
                    (Return sts, s2) \<Rightarrow>
                      (Return \<lparr>previous = previous_state, current = current sts\<rparr>, s2)
                  | (Throw e, s2) \<Rightarrow> (Throw e, s2)
                  | (NoReturn, s2) \<Rightarrow> (NoReturn, s2))
               else (Return \<lparr>previous = previous_state, current = current_state (fst s1)\<rparr>, s1)
           | (Throw e, s1) \<Rightarrow> (Throw e, s1)
           | (NoReturn, s1) \<Rightarrow> (NoReturn, s1))
      | running \<Rightarrow>
          (case update_running iph timeout_until_it_finishes_ms s of
             (Return _, s1) \<Rightarrow>
               (Return \<lparr>previous = previous_state, current = current_state (fst s1)\<rparr>, s1)
           | (Throw e, s1) \<Rightarrow> (Throw e, s1)
           | (NoReturn, s1) \<Rightarrow> (NoReturn, s1))
      | finished \<Rightarrow>
          if \<not> manages_process iph (fst s) then
            throw (InvalidState ''cannot update state - process handle is invalid!'') s
          else (Return \<lparr>previous = previous_state, current = current_state (fst s)\<rparr>, s)
      | uninitialzied \<Rightarrow>
          throw (InvalidState ''cannot update state - process wasn't initialized!'') s)"
  by pat_completeness auto
termination
  by (relation "measure (\<lambda>(iph, t, s). if current_state (fst s) = ready then 1 else 0)")
     (auto dest: spawn_Return_running [OF sym])

declare update_and_get_state.simps [simp del]

definition finish_and_get_prev_state :: "int \<Rightarrow> state prog" where
  "finish_and_get_prev_state iph =
     and_then (update_and_get_state iph (- 1)) (\<lambda>sts. succeed (previous sts))"

definition finish :: "int \<Rightarrow> unit prog" where
  "finish iph = and_then (finish_and_get_prev_state iph) (\<lambda>_. succeed ())"

subsection \<open>Writing to the child: \<^verbatim>\<open>send_to_stdin\<close>, \<^verbatim>\<open>close_stdin\<close>\<close>

text \<open>
  The loop of lines 246 to 250. It runs for as long as the kernel reports fewer bytes
  written than remain, which may be forever: \<open>None\<close> is the loop that never ends.
\<close>

partial_function (option) write_all :: "string \<Rightarrow> int \<Rightarrow> sys \<Rightarrow> (unit outcome \<times> sys) option" where
  "write_all data written s =
     (if written < int (length data) then
        (case checked 247 (sys_write (get_in (stdin_pipe (fst s))) (drop (nat written) data)) s of
           (Return now_written, s') \<Rightarrow> write_all data (written + r_ret now_written) s'
         | (Throw e, s') \<Rightarrow> Some (Throw e, s')
         | (NoReturn, s') \<Rightarrow> Some (NoReturn, s'))
      else Some (Return (), s))"

definition send_to_stdin :: "int \<Rightarrow> string \<Rightarrow> sys \<Rightarrow> (unit outcome \<times> sys) option" where
  "send_to_stdin iph data s =
     (if \<not> manages_process iph (fst s) then
        Some (throw (InvalidState ''cannot write to inferior stdin - process handle is invalid!'') s)
      else if get_in (stdin_pipe (fst s)) = invalid_fd then
        Some (throw (InvalidState
          ''cannot write to inferior stdin - stdin pipe is closed or not initialized!'') s)
      else if current_state (fst s) \<noteq> running then
        Some (throw (InvalidState ''cannot write to inferior stdin - process isn't running!'') s)
      else write_all data 0 s)"

definition close_stdin :: "int \<Rightarrow> unit prog" where
  "close_stdin iph s =
     (if \<not> manages_process iph (fst s) then
        throw (InvalidState ''cannot close inferior stdin - process handle is invalid!'') s
      else if current_state (fst s) \<noteq> running \<or> get_in (stdin_pipe (fst s)) = invalid_fd then
        throw (InvalidState
          ''cannot close inferior stdin - process isn't running or invalid fd!'') s
      else on_stdin_pipe close_in s)"

subsection \<open>Reading from the child: \<^verbatim>\<open>update_buffer\<close>, \<^verbatim>\<open>get_buffer\<close>, \<^verbatim>\<open>read_*\<close>, \<^verbatim>\<open>get_*\<close>\<close>

text \<open>
  \<open>overwrite xs off data\<close>: the array \<open>xs\<close> after \<open>data\<close> was stored from index \<open>off\<close>
  on. The kernel stores no more than the count it was given, here the rest of \<open>xs\<close>.
\<close>

definition overwrite :: "string \<Rightarrow> nat \<Rightarrow> string \<Rightarrow> string" where
  "overwrite xs off data =
     take off xs @ take (length xs - off) (data @ drop (off + length data) xs)"

text \<open>
  The lambda \<^verbatim>\<open>read_pipe\<close> of \<^verbatim>\<open>update_buffer\<close>: the outcome, the buffer and the world.
  \<^verbatim>\<open>resize\<close> fills the new characters with NUL before \<^verbatim>\<open>read\<close> stores what it read.
\<close>

definition read_pipe :: "int \<Rightarrow> string \<Rightarrow> world \<Rightarrow> unit outcome \<times> string \<times> world" where
  "read_pipe fd buffer w =
     (if fd = invalid_fd then
        (Throw (InvalidState ''cannot read from given pipe - it's closed or not initialized!''),
         buffer, w)
      else
        (let buf_prev_size = length buffer;
             (io, w1) = os (sys_ioctl_FIONREAD fd) w
         in case syscall_helper (strerror w1) (r_errno io) exec_path_args_cxx 420 (r_ret io) of
              Throw e \<Rightarrow> (Throw e, buffer, w1)
            | NoReturn \<Rightarrow> (NoReturn, buffer, w1)
            | Return _ \<Rightarrow>
                (let avail = r_avail io in
                 if 0 < avail then
                   (let resized = buffer @ replicate (nat avail) (CHR 0x00);
                        (rd, w2) = os (sys_read fd avail) w1;
                        filled = (if 0 \<le> r_ret rd
                                  then overwrite resized buf_prev_size (take (nat (r_ret rd)) (r_bytes rd))
                                  else resized)
                    in case syscall_helper (strerror w2) (r_errno rd) exec_path_args_cxx 433 (r_ret rd) of
                         Throw e \<Rightarrow> (Throw e, filled, w2)
                       | NoReturn \<Rightarrow> (NoReturn, filled, w2)
                       | Return nbytes \<Rightarrow>
                           if nbytes < avail then
                             (Throw (ShortRead ''failed to read all available bytes from given pipe!''),
                              filled, w2)
                           else (Return (), filled, w2))
                 else (Return (), buffer, w1))))"

definition update_buffer :: "int \<Rightarrow> bool \<Rightarrow> unit prog" where
  "update_buffer iph for_stdout s =
     (if \<not> manages_process iph (fst s) then
        throw (InvalidState ''cannot update any buffer - process handle is invalid!'') s
      else
        (let l = fst s;
             (out, buf, w') =
               read_pipe (if for_stdout then get_out (stdout_pipe l) else get_out (stderr_pipe l))
                         (if for_stdout then stdout_buffer l else stderr_buffer l) (snd s)
         in (out, (if for_stdout then l\<lparr>stdout_buffer := buf\<rparr> else l\<lparr>stderr_buffer := buf\<rparr>, w'))))"

text \<open>
  A \<^verbatim>\<open>std::string_view\<close> into a buffer: where it starts, counted from the buffer's first
  character, and how many characters it spans. \<^verbatim>\<open>get_buffer\<close> computes the span as
  \<^verbatim>\<open>buffer.size() - consumed_bytes\<close> in \<^verbatim>\<open>size_t\<close>, which wraps modulo \<open>2 ^ 64\<close>.
\<close>

record string_view =
  sv_start :: int
  sv_size :: nat

definition get_buffer :: "string \<Rightarrow> int \<Rightarrow> bool \<Rightarrow> string_view \<times> int" where
  "get_buffer buffer consumed_bytes whole =
     (if whole then (\<lparr>sv_start = 0, sv_size = length buffer\<rparr>, int (length buffer))
      else (\<lparr>sv_start = consumed_bytes,
             sv_size = nat ((int (length buffer) - consumed_bytes) mod 2 ^ 64)\<rparr>,
            int (length buffer)))"

text \<open>
  The characters a view shows while the buffer is \<open>buffer\<close>; \<open>None\<close> when the view is
  not inside the buffer, where reading it is undefined.
\<close>

definition sv_chars :: "string \<Rightarrow> string_view \<Rightarrow> string option" where
  "sv_chars buffer v =
     (if 0 \<le> sv_start v \<and> sv_start v + int (sv_size v) \<le> int (length buffer)
      then Some (take (sv_size v) (drop (nat (sv_start v)) buffer))
      else None)"

definition read_stdout :: "int \<Rightarrow> bool \<Rightarrow> string_view prog" where
  "read_stdout iph whole =
     and_then (update_buffer iph True) (\<lambda>_ s.
       let (v, c) = get_buffer (stdout_buffer (fst s)) (stdout_consumed_bytes (fst s)) whole
       in (Return v, ((fst s)\<lparr>stdout_consumed_bytes := c\<rparr>, snd s)))"

definition read_stderr :: "int \<Rightarrow> bool \<Rightarrow> string_view prog" where
  "read_stderr iph whole =
     and_then (update_buffer iph False) (\<lambda>_ s.
       let (v, c) = get_buffer (stderr_buffer (fst s)) (stderr_consumed_bytes (fst s)) whole
       in (Return v, ((fst s)\<lparr>stderr_consumed_bytes := c\<rparr>, snd s)))"

text \<open>
  \<^verbatim>\<open>return std::move(stdout_buffer);\<close> moves the buffer into the result. The string moved
  from is left empty, as the standard libraries in use leave it and as the repository's
  tests expect. Nothing else is assigned: the consumed-bytes member is not touched.
\<close>

definition get_stdout :: "int \<Rightarrow> string prog" where
  "get_stdout iph =
     and_then (update_buffer iph True) (\<lambda>_ s.
       (Return (stdout_buffer (fst s)), ((fst s)\<lparr>stdout_buffer := []\<rparr>, snd s)))"

definition get_stderr :: "int \<Rightarrow> string prog" where
  "get_stderr iph =
     and_then (update_buffer iph False) (\<lambda>_ s.
       (Return (stderr_buffer (fst s)), ((fst s)\<lparr>stderr_buffer := []\<rparr>, snd s)))"

subsection \<open>Killing, timing, the return code\<close>

definition do_kill :: "int \<Rightarrow> unit prog" where
  "do_kill iph s =
     (if manages_process iph (fst s) \<and> current_state (fst s) = running then
        and_then (checked 302 (sys_kill (handle (fst s)) SIGKILL)) (\<lambda>_. query_status iph True) s
      else succeed () s)"

text \<open>
  \<^verbatim>\<open>time_diff_ms\<close> divides a difference of nanoseconds by a million in \<^verbatim>\<open>double\<close>; the
  model keeps the exact quotient and leaves the rounding of \<^verbatim>\<open>double\<close> out.
\<close>

definition time_diff_ms :: "int \<Rightarrow> int \<Rightarrow> real" where
  "time_diff_ms high_ns low_ns = real_of_int (high_ns - low_ns) / 1000000"

definition time_running_ms :: "int \<Rightarrow> real prog" where
  "time_running_ms iph s =
     (if \<not> manages_process iph (fst s) then
        throw (InvalidState ''can't measure time - process handle is invalid!'') s
      else if current_state (fst s) = running then
        and_then now_ns (\<lambda>t s'. (Return (time_diff_ms t (time_spawned_ns (fst s'))), s')) s
      else if current_state (fst s) = finished then
        (Return (time_diff_ms (time_finished_ns (fst s)) (time_spawned_ns (fst s))), s)
      else
        throw (InvalidState ''cannot get running time - process isn't running or finished!'') s)"

definition get_return_code :: "int \<Rightarrow> int prog" where
  "get_return_code iph s =
     (if \<not> manages_process iph (fst s) then
        throw (InvalidState ''can't obtain return code - process handle is invalid!'') s
      else if current_state (fst s) \<noteq> finished then
        throw (InvalidState ''can't obtain return code - process isn't finished!'') s
      else (Return (return_code (fst s)), s))"

subsection \<open>Moving, swapping, destroying\<close>

text \<open>
  The move constructor (lines 79 to 92): the object constructed and what is left of
  \<open>rhs\<close>. The strings, the vector and the pipes are moved out of \<open>rhs\<close>; the handle and
  the state are exchanged for the sentinel and \<^verbatim>\<open>uninitialzied\<close>; the two timestamps,
  the return code and the two consumed-bytes counters are copied, so \<open>rhs\<close> keeps them.
\<close>

definition move_ctor :: "int \<Rightarrow> exec_path_args \<Rightarrow> exec_path_args \<times> exec_path_args" where
  "move_ctor iph rhs =
     (let (p_in, r_in) = pipe_helper_move (stdin_pipe rhs);
          (p_out, r_out) = pipe_helper_move (stdout_pipe rhs);
          (p_err, r_err) = pipe_helper_move (stderr_pipe rhs)
      in (\<lparr>path = path rhs, args = args rhs,
           time_spawned_ns = time_spawned_ns rhs, time_finished_ns = time_finished_ns rhs,
           handle = handle rhs,
           stdin_pipe = p_in, stdout_pipe = p_out, stderr_pipe = p_err,
           current_state = current_state rhs, return_code = return_code rhs,
           stdout_buffer = stdout_buffer rhs, stdout_consumed_bytes = stdout_consumed_bytes rhs,
           stderr_buffer = stderr_buffer rhs, stderr_consumed_bytes = stderr_consumed_bytes rhs\<rparr>,
          rhs\<lparr>path := [], args := [], handle := iph,
              stdin_pipe := r_in, stdout_pipe := r_out, stderr_pipe := r_err,
              current_state := uninitialzied, stdout_buffer := [], stderr_buffer := []\<rparr>))"

text \<open>\<^verbatim>\<open>swap(lhs, rhs)\<close> exchanges every one of the fourteen members.\<close>

definition swap_launchers :: "exec_path_args \<Rightarrow> exec_path_args \<Rightarrow> exec_path_args \<times> exec_path_args" where
  "swap_launchers lhs rhs = (rhs, lhs)"

text \<open>
  The destructor is \<^verbatim>\<open>noexcept\<close>: an exception leaving \<^verbatim>\<open>do_kill\<close> ends the program.
  Then the members go, the three pipes in reverse order of declaration.
\<close>

definition dtor :: "int \<Rightarrow> sys \<Rightarrow> unit outcome \<times> world" where
  "dtor iph s =
     (case (if manages_process iph (fst s) then do_kill iph s else succeed () s) of
        (Return _, (l, w)) \<Rightarrow>
          (Return (),
           pipe_helper_dtor (stdin_pipe l)
             (pipe_helper_dtor (stdout_pipe l) (pipe_helper_dtor (stderr_pipe l) w)))
      | (Throw e, (l, w)) \<Rightarrow> (NoReturn, w)
      | (NoReturn, (l, w)) \<Rightarrow> (NoReturn, w))"

text \<open>
  Move assignment (lines 94 to 100) depends on whether the two operands are the same
  object, so objects live in a store, addressed by numbers.
\<close>

type_synonym store = "nat \<Rightarrow> exec_path_args"

definition move_assign :: "int \<Rightarrow> nat \<Rightarrow> nat \<Rightarrow> store \<times> world \<Rightarrow> unit outcome \<times> (store \<times> world)" where
  "move_assign iph this rhs sw =
     (let (st, w) = sw in
      if this \<noteq> rhs then
        (let (tmp, husk) = move_ctor iph (st rhs);
             st1 = st(rhs := husk);
             (new_this, tmp') = swap_launchers (st1 this) tmp;
             st2 = st1(this := new_this);
             (out, w') = dtor iph (tmp', w)
         in (out, (st2, w')))
      else (Return (), (st, w)))"

section \<open>Sample values for the closed theorems\<close>

text \<open>A few entries of the C library's \<^verbatim>\<open>strerror\<close> table on Linux.\<close>

definition strerror_linux :: "int \<Rightarrow> string" where
  "strerror_linux e =
     (if e = 0 then ''Success''
      else if e = 4 then ''Interrupted system call''
      else if e = 9 then ''Bad file descriptor''
      else if e = 24 then ''Too many open files''
      else ''Unknown error'')"

text \<open>Answers of the kernel: one where nothing fails and nothing is reported, and variants.\<close>

definition quiet_reply :: os_reply where
  "quiet_reply = \<lparr>r_ret = 0, r_errno = 0, r_fds = (0, 0), r_avail = 0, r_bytes = [],
                   r_si_pid = 0, r_si_code = 0, r_si_status = 0, r_tv_sec = 0, r_tv_nsec = 0\<rparr>"

definition pipe_reply :: "int \<Rightarrow> int \<Rightarrow> os_reply" where
  "pipe_reply a b = quiet_reply\<lparr>r_fds := (a, b)\<rparr>"

definition ret_reply :: "int \<Rightarrow> os_reply" where
  "ret_reply r = quiet_reply\<lparr>r_ret := r\<rparr>"

text \<open>\<^verbatim>\<open>ioctl(FIONREAD)\<close> reports \<open>n\<close> bytes; \<^verbatim>\<open>read\<close> delivers the bytes \<open>bs\<close>.\<close>

definition avail_reply :: "int \<Rightarrow> os_reply" where
  "avail_reply n = quiet_reply\<lparr>r_avail := n\<rparr>"

definition read_reply :: "string \<Rightarrow> os_reply" where
  "read_reply bs = quiet_reply\<lparr>r_ret := int (length bs), r_bytes := bs\<rparr>"

text \<open>A world that has seen no call yet and answers the next calls from a list.\<close>

definition world_of :: "os_reply list \<Rightarrow> world" where
  "world_of rs = \<lparr>answers = (\<lambda>k. if k < length rs then rs ! k else quiet_reply),
                  calls = [], cerr = [], strerror = strerror_linux\<rparr>"

text \<open>Three pipes are created and \<^verbatim>\<open>fork\<close> returns the child's pid 4242.\<close>

definition spawn_world :: world where
  "spawn_world = world_of [pipe_reply 3 4, pipe_reply 5 6, pipe_reply 7 8, ret_reply 4242]"

text \<open>\<^verbatim>\<open>kill\<close> succeeds and \<^verbatim>\<open>waitid\<close> reports process 4242 killed by signal 9.\<close>

definition kill_world :: world where
  "kill_world = world_of [quiet_reply,
     quiet_reply\<lparr>r_si_pid := 4242, r_si_code := CLD_KILLED, r_si_status := SIGKILL\<rparr>]"

text \<open>A launcher as \<^verbatim>\<open>update_and_get_state(0)\<close> leaves it in the parent: process 4242 runs.\<close>

definition running_launcher :: exec_path_args where
  "running_launcher =
     \<lparr>path = ''/usr/bin/env'', args = [''sh''], time_spawned_ns = 1000, time_finished_ns = 0,
      handle = 4242,
      stdin_pipe = \<lparr>fds0 = - 1, fds1 = 4\<rparr>, stdout_pipe = \<lparr>fds0 = 5, fds1 = - 1\<rparr>,
      stderr_pipe = \<lparr>fds0 = 7, fds1 = - 1\<rparr>,
      current_state = running, return_code = 0,
      stdout_buffer = [], stdout_consumed_bytes = 0,
      stderr_buffer = [], stderr_consumed_bytes = 0\<rparr>"

text \<open>What the theorems ask of the kernel's answers.\<close>

definition call_succeeds :: "os_reply \<Rightarrow> bool" where
  "call_succeeds r = (0 \<le> static_cast_int (r_ret r))"

definition reports_end_of :: "int \<Rightarrow> os_reply \<Rightarrow> bool" where
  "reports_end_of h q =
     (r_si_pid q = h \<and> r_si_pid q \<noteq> 0 \<and>
      (r_si_code q = CLD_EXITED \<or> r_si_code q = CLD_KILLED \<or> r_si_code q = CLD_DUMPED))"

text \<open>The three \<^verbatim>\<open>pipe\<close> calls and \<^verbatim>\<open>fork\<close> succeed, and \<^verbatim>\<open>fork\<close> returns in the parent.\<close>

definition spawn_succeeds_in_parent :: "world \<Rightarrow> bool" where
  "spawn_succeeds_in_parent w =
     (call_succeeds (answers w (length (calls w))) \<and>
      call_succeeds (answers w (length (calls w) + 1)) \<and>
      call_succeeds (answers w (length (calls w) + 2)) \<and>
      call_succeeds (answers w (length (calls w) + 3)) \<and>
      r_ret (answers w (length (calls w) + 3)) \<noteq> 0)"

text \<open>The calls of the \<^verbatim>\<open>running\<close> branch: the exit watcher, its poll, and the reap.\<close>

fun watches_or_reaps :: "os_call \<Rightarrow> bool" where
  "watches_or_reaps (sys_pidfd_open _) = True"
| "watches_or_reaps (sys_poll _ _) = True"
| "watches_or_reaps (sys_waitid _ _) = True"
| "watches_or_reaps _ = False"

definition throws_syscall_error :: "'a outcome \<Rightarrow> bool" where
  "throws_syscall_error out = (case out of Throw (SyscallError _) \<Rightarrow> True | _ \<Rightarrow> False)"

definition throws_invalid_state :: "'a outcome \<Rightarrow> bool" where
  "throws_invalid_state out = (case out of Throw (InvalidState _) \<Rightarrow> True | _ \<Rightarrow> False)"

section \<open>The syscall result checker: properties\<close>

lemma static_cast_int_id:
  assumes "- (2 ^ 31) \<le> r" and "r < 2 ^ 31"
  shows "static_cast_int r = r"
proof -
  have "0 \<le> r + 2 ^ 31" and "r + 2 ^ 31 < 2 ^ 32"
    using assms by simp_all
  then have "(r + 2 ^ 31) mod 2 ^ 32 = r + 2 ^ 31"
    by simp
  then show ?thesis
    by (simp add: static_cast_int_def)
qed

text \<open>
  Claim C7. Every result that reaches the checker fits an \<^verbatim>\<open>int\<close>: the calls made
  through the macro return \<^verbatim>\<open>int\<close>, except \<^verbatim>\<open>write\<close> (line 247) and \<^verbatim>\<open>read\<close>
  (line 433), whose byte counts the kernel keeps below \<open>2 ^ 31\<close>. For every such
  result \<open>r\<close>: a non-negative \<open>r\<close> is returned unchanged, and a negative \<open>r\<close> throws
  the error whose message is the file, a colon, the line, the return code, the value of
  \<^verbatim>\<open>errno\<close> and \<^verbatim>\<open>strerror\<close> of that value.
\<close>

theorem syscall_helper_int_range:
  assumes "- (2 ^ 31) \<le> r" and "r < 2 ^ 31"
  shows "(0 \<le> r \<longrightarrow> syscall_helper strerr errno_val file line r = Return r) \<and>
         (r < 0 \<longrightarrow> syscall_helper strerr errno_val file line r =
            Throw (SyscallError (file @ '':'' @ to_string line @
              '': syscall failed - return code '' @ to_string r @
              '', errno '' @ to_string errno_val @ '' ~ \"'' @ strerr errno_val @ ''\"'')))"
  using static_cast_int_id [OF assms]
  by (simp add: syscall_helper_def check_syscall_ret_val_def)

theorem syscall_helper_int_range_witness:
  "syscall_helper strerror_linux 0 ''src/exec_path_args.cxx'' 247 5 = Return 5 \<and>
   throws_syscall_error (syscall_helper strerror_linux 9 ''src/exec_path_args.cxx'' 247 (- 1))"
  using syscall_helper_int_range [of 5 strerror_linux 0 "''src/exec_path_args.cxx''" 247]
        syscall_helper_int_range [of "- 1" strerror_linux 9 "''src/exec_path_args.cxx''" 247]
  by (simp add: throws_syscall_error_def)

section \<open>The argument vector: properties\<close>

lemma fold_update_length:
  "length (fold (\<lambda>i a. a[Suc i := f i]) [0..<k] arr) = length arr"
  by (induction k) simp_all

lemma fold_update_nth:
  "j < length arr \<Longrightarrow>
     fold (\<lambda>i a. a[Suc i := f i]) [0..<k] arr ! j =
       (if 1 \<le> j \<and> j \<le> k then f (j - 1) else arr ! j)"
proof (induction k)
  case 0
  then show ?case by auto
next
  case (Suc k)
  show ?case
  proof (cases "j = Suc k")
    case True
    with Suc.prems show ?thesis by (simp add: fold_update_length)
  next
    case False
    with Suc show ?thesis by (auto simp: nth_list_update fold_update_length)
  qed
qed

text \<open>The loop of \<^verbatim>\<open>build_args_cstr\<close> in closed form, for every path and argument list.\<close>

lemma build_args_cstr_eq:
  "build_args_cstr aPath aArgs =
     Some (strdup_c_str aPath) # map (\<lambda>a. Some (strdup_c_str a)) aArgs @ [None]"
proof (rule nth_equalityI)
  show "length (build_args_cstr aPath aArgs) =
        length (Some (strdup_c_str aPath) # map (\<lambda>a. Some (strdup_c_str a)) aArgs @ [None])"
    by (simp add: build_args_cstr_def Let_def fold_update_length)
next
  fix j assume "j < length (build_args_cstr aPath aArgs)"
  then have j: "j < length aArgs + 2"
    by (simp add: build_args_cstr_def Let_def fold_update_length)
  show "build_args_cstr aPath aArgs ! j =
        (Some (strdup_c_str aPath) # map (\<lambda>a. Some (strdup_c_str a)) aArgs @ [None]) ! j"
    using j
    by (auto simp: build_args_cstr_def Let_def fold_update_length fold_update_nth
        nth_list_update nth_Cons nth_append split: nat.splits)
qed

lemma strdup_c_str_id: "CHR 0x00 \<notin> set s \<Longrightarrow> strdup_c_str s = s"
  by (auto simp: strdup_c_str_def takeWhile_eq_all_conv)

lemma map_strdup_c_str_id:
  "\<forall>a\<in>set xs. CHR 0x00 \<notin> set a \<Longrightarrow> map (\<lambda>a. Some (strdup_c_str a)) xs = map Some xs"
  by (induction xs) (simp_all add: strdup_c_str_id)

text \<open>
  Claim C6, as the code has it. For every path and every argument list of length \<open>n\<close>
  that hold no NUL byte, the array has \<open>n + 2\<close> entries: the path, the arguments in
  their order, and a null pointer.
\<close>

theorem build_args_cstr_argv:
  assumes "CHR 0x00 \<notin> set aPath" and "\<forall>a\<in>set aArgs. CHR 0x00 \<notin> set a"
  shows "build_args_cstr aPath aArgs = Some aPath # map Some aArgs @ [None] \<and>
         length (build_args_cstr aPath aArgs) = length aArgs + 2"
  using assms by (simp add: build_args_cstr_eq strdup_c_str_id map_strdup_c_str_id)

theorem build_args_cstr_argv_witness:
  "build_args_cstr ''/usr/bin/env'' [''sh'', ''-c''] =
     [Some ''/usr/bin/env'', Some ''sh'', Some ''-c'', None]"
  using build_args_cstr_argv [of "''/usr/bin/env''" "[''sh'', ''-c'']"] by simp

text \<open>
  Claim C6 as stated fails for a string that holds a NUL byte: the entry is the string
  cut at that byte, since \<^verbatim>\<open>strdup\<close> copies a C string.
\<close>

theorem build_args_cstr_nul_counterexample:
  "build_args_cstr [CHR ''a'', CHR 0x00, CHR ''b''] [''x''] = [Some ''a'', Some ''x'', None] \<and>
   build_args_cstr [CHR ''a'', CHR 0x00, CHR ''b''] [''x''] ! 0 \<noteq>
     Some [CHR ''a'', CHR 0x00, CHR ''b'']"
  by (simp add: build_args_cstr_eq strdup_c_str_def)

section \<open>The pipe pair: properties\<close>

lemma close_fd_closed: "fst (close_fd fd w) = invalid_fd"
  by (simp add: close_fd_def os_def Let_def)

lemma close_fd_invalid: "close_fd invalid_fd w = (invalid_fd, w)"
  by (simp add: close_fd_def)

lemma close_fd_calls:
  "calls (snd (close_fd fd w)) = calls w @ (if fd \<noteq> invalid_fd then [sys_close fd] else [])"
  by (simp add: close_fd_def os_def Let_def)

text \<open>
  Claim C8. After \<^verbatim>\<open>close_out()\<close> the read end is the invalid descriptor and the write
  end is what it was, whatever \<^verbatim>\<open>close\<close> answered; the first call issues one
  \<^verbatim>\<open>close\<close> when the end was open; a second \<^verbatim>\<open>close_out()\<close>, in any world \<open>w'\<close>,
  returns the same pipe and the same world: no call, no diagnostic. Likewise for
  \<^verbatim>\<open>close_in()\<close> and the write end. Neither function has an exceptional outcome.
\<close>

theorem close_ends_idempotent:
  "fds0 (fst (close_out p w)) = invalid_fd \<and>
   fds1 (fst (close_out p w)) = fds1 p \<and>
   calls (snd (close_out p w)) =
     calls w @ (if fds0 p \<noteq> invalid_fd then [sys_close (fds0 p)] else []) \<and>
   close_out (fst (close_out p w)) w' = (fst (close_out p w), w') \<and>
   fds1 (fst (close_in p w)) = invalid_fd \<and>
   fds0 (fst (close_in p w)) = fds0 p \<and>
   calls (snd (close_in p w)) =
     calls w @ (if fds1 p \<noteq> invalid_fd then [sys_close (fds1 p)] else []) \<and>
   close_in (fst (close_in p w)) w' = (fst (close_in p w), w')"
proof -
  obtain fd w1 where c: "close_fd (fds0 p) w = (fd, w1)"
    by (cases "close_fd (fds0 p) w")
  then have fd: "fd = invalid_fd"
    using close_fd_closed [of "fds0 p" w] by simp
  have w1: "calls w1 = calls w @ (if fds0 p \<noteq> invalid_fd then [sys_close (fds0 p)] else [])"
    using close_fd_calls [of "fds0 p" w] c by simp
  obtain fd' w2 where d: "close_fd (fds1 p) w = (fd', w2)"
    by (cases "close_fd (fds1 p) w")
  then have fd': "fd' = invalid_fd"
    using close_fd_closed [of "fds1 p" w] by simp
  have w2: "calls w2 = calls w @ (if fds1 p \<noteq> invalid_fd then [sys_close (fds1 p)] else [])"
    using close_fd_calls [of "fds1 p" w] d by simp
  show ?thesis
    by (simp add: close_out_def close_in_def c d fd fd' w1 w2 close_fd_invalid)
qed

section \<open>The launcher: computing with system calls\<close>

lemma and_then_Return: "m s = (Return x, s1) \<Longrightarrow> and_then m f s = f x s1"
  by (simp add: and_then_def)

lemma and_then_succeed: "and_then (\<lambda>s. succeed (g s) s) f s = f (g s) s"
  by (simp add: and_then_def succeed_def)

lemma syscall_helper_cases:
  "syscall_helper se e f lno r =
     (if 0 \<le> static_cast_int r then Return r
      else Throw (the (check_syscall_ret_val se e f lno (static_cast_int r))))"
  by (simp add: syscall_helper_def check_syscall_ret_val_def)

lemma checked_eq:
  "checked line c (l, w) =
     (case syscall_helper (strerror w) (r_errno (answers w (length (calls w)))) exec_path_args_cxx line
             (r_ret (answers w (length (calls w)))) of
        Return _ \<Rightarrow> (Return (answers w (length (calls w))), (l, w\<lparr>calls := calls w @ [c]\<rparr>))
      | Throw e \<Rightarrow> (Throw e, (l, w\<lparr>calls := calls w @ [c]\<rparr>))
      | NoReturn \<Rightarrow> (NoReturn, (l, w\<lparr>calls := calls w @ [c]\<rparr>)))"
  by (simp add: checked_def os_def split: outcome.splits)

lemma checked_calls: "calls (snd (snd (checked line c (l, w)))) = calls w @ [c]"
  by (simp add: checked_eq syscall_helper_cases)

lemma checked_ok:
  "call_succeeds (answers w (length (calls w))) \<Longrightarrow>
   checked line c (l, w) = (Return (answers w (length (calls w))), (l, w\<lparr>calls := calls w @ [c]\<rparr>))"
  by (simp add: checked_eq syscall_helper_cases call_succeeds_def)

lemma now_ns_eq:
  "now_ns (l, w) =
     (Return (r_tv_sec (answers w (length (calls w))) * 1000000000 +
              r_tv_nsec (answers w (length (calls w)))),
      (l, w\<lparr>calls := calls w @ [sys_clock_gettime]\<rparr>))"
  by (simp add: now_ns_def os_def)

lemma call_succeeds_samples:
  "call_succeeds quiet_reply" "call_succeeds (pipe_reply a b)" "call_succeeds (ret_reply 4242)"
  by (simp_all add: call_succeeds_def quiet_reply_def pipe_reply_def ret_reply_def
      static_cast_int_def)

lemma spawn_world_facts:
  "calls spawn_world = []"
  "answers spawn_world 0 = pipe_reply 3 4"
  "answers spawn_world (Suc 0) = pipe_reply 5 6"
  "answers spawn_world (Suc (Suc 0)) = pipe_reply 7 8"
  "answers spawn_world (Suc (Suc (Suc 0))) = ret_reply 4242"
  by (simp_all add: spawn_world_def world_of_def)

lemma spawn_world_succeeds: "spawn_succeeds_in_parent spawn_world"
  by (simp add: spawn_succeeds_in_parent_def spawn_world_facts eval_nat_numeral
      call_succeeds_samples) (simp add: ret_reply_def)

lemma kill_world_facts:
  "calls kill_world = []"
  "call_succeeds (answers kill_world 0)"
  "call_succeeds (answers kill_world (Suc 0))"
  "reports_end_of 4242 (answers kill_world (Suc 0))"
  by (simp_all add: kill_world_def world_of_def call_succeeds_def quiet_reply_def
      static_cast_int_def reports_end_of_def)

lemma running_launcher_facts:
  "manages_process (- 1) running_launcher" "current_state running_launcher = running"
  "handle running_launcher = 4242" "get_in (stdin_pipe running_launcher) \<noteq> invalid_fd"
  by (simp_all add: manages_process_def running_launcher_def get_in_def invalid_fd_def)

section \<open>\<^verbatim>\<open>send_to_stdin\<close>: properties\<close>

text \<open>
  Claim C9. On a launcher that owns a process, whose stdin pipe is open and whose state
  is \<^verbatim>\<open>running\<close>, \<^verbatim>\<open>send_to_stdin\<close> of the empty string returns normally and leaves
  the launcher and the world as they were: no call is issued, the loop does not run.
\<close>

theorem send_to_stdin_empty:
  assumes "manages_process iph l" and "get_in (stdin_pipe l) \<noteq> invalid_fd"
    and "current_state l = running"
  shows "send_to_stdin iph [] (l, w) = Some (Return (), (l, w))"
  using assms by (simp add: send_to_stdin_def write_all.simps)

theorem send_to_stdin_empty_witness:
  "send_to_stdin (- 1) [] (running_launcher, world_of []) =
     Some (Return (), (running_launcher, world_of []))"
  using send_to_stdin_empty [of "- 1" running_launcher "world_of []"]
  by (simp add: running_launcher_facts)

section \<open>\<^verbatim>\<open>do_kill\<close>: properties\<close>

text \<open>
  Claim C5. When a process is owned and the state is \<^verbatim>\<open>running\<close>, the first call
  \<^verbatim>\<open>do_kill\<close> issues is \<^verbatim>\<open>kill(handle, SIGKILL)\<close>; when that call succeeds the next
  one is the blocking \<^verbatim>\<open>waitid\<close> on the handle; and when that succeeds and reports the
  end of the owned process, \<^verbatim>\<open>do_kill\<close> returns with the launcher \<^verbatim>\<open>finished\<close> and the
  reported status stored. For every other launcher \<^verbatim>\<open>do_kill\<close> returns normally and
  changes neither the launcher nor the world.
\<close>

theorem do_kill_cases:
  "(manages_process iph l \<and> current_state l = running \<longrightarrow>
      take 1 (drop (length (calls w)) (calls (snd (snd (do_kill iph (l, w)))))) =
        [sys_kill (handle l) SIGKILL] \<and>
      (call_succeeds (answers w (length (calls w))) \<longrightarrow>
         take 2 (drop (length (calls w)) (calls (snd (snd (do_kill iph (l, w)))))) =
           [sys_kill (handle l) SIGKILL, sys_waitid (handle l) True] \<and>
         (call_succeeds (answers w (Suc (length (calls w)))) \<and>
          reports_end_of (handle l) (answers w (Suc (length (calls w)))) \<longrightarrow>
            fst (do_kill iph (l, w)) = Return () \<and>
            current_state (fst (snd (do_kill iph (l, w)))) = finished \<and>
            return_code (fst (snd (do_kill iph (l, w)))) =
              r_si_status (answers w (Suc (length (calls w))))))) \<and>
   (\<not> (manages_process iph l \<and> current_state l = running) \<longrightarrow>
      do_kill iph (l, w) = (Return (), (l, w)))"
  apply (intro conjI impI)
  subgoal by (auto simp: do_kill_def and_then_def checked_eq syscall_helper_cases query_status_def
        throw_def succeed_def now_ns_eq modify_def split: if_splits)
  subgoal by (auto simp: do_kill_def and_then_def checked_eq syscall_helper_cases query_status_def
        throw_def succeed_def now_ns_eq modify_def call_succeeds_def split: if_splits)
  subgoal by (auto simp: do_kill_def and_then_def checked_eq syscall_helper_cases query_status_def
        throw_def succeed_def now_ns_eq modify_def call_succeeds_def reports_end_of_def
        split: if_splits)
  subgoal by (auto simp: do_kill_def and_then_def checked_eq syscall_helper_cases query_status_def
        throw_def succeed_def now_ns_eq modify_def call_succeeds_def reports_end_of_def
        split: if_splits)
  subgoal by (auto simp: do_kill_def and_then_def checked_eq syscall_helper_cases query_status_def
        throw_def succeed_def now_ns_eq modify_def call_succeeds_def reports_end_of_def
        split: if_splits)
  subgoal by (auto simp: do_kill_def succeed_def)
  done

theorem do_kill_cases_witness:
  "fst (do_kill (- 1) (running_launcher, kill_world)) = Return () \<and>
   current_state (fst (snd (do_kill (- 1) (running_launcher, kill_world)))) = finished \<and>
   take 2 (calls (snd (snd (do_kill (- 1) (running_launcher, kill_world))))) =
     [sys_kill 4242 SIGKILL, sys_waitid 4242 True] \<and>
   do_kill (- 1) (default_ctor (- 1), world_of []) = (Return (), (default_ctor (- 1), world_of []))"
proof -
  have n: "\<not> (manages_process (- 1) (default_ctor (- 1)) \<and>
              current_state (default_ctor (- 1)) = running)"
    by (simp add: manages_process_def default_ctor_def)
  note t = do_kill_cases [of "- 1" running_launcher kill_world]
  from t have 1: "fst (do_kill (- 1) (running_launcher, kill_world)) = Return () \<and>
     current_state (fst (snd (do_kill (- 1) (running_launcher, kill_world)))) = finished"
    by (simp add: kill_world_facts running_launcher_facts)
  from t have 2: "take 2 (calls (snd (snd (do_kill (- 1) (running_launcher, kill_world))))) =
     [sys_kill 4242 SIGKILL, sys_waitid 4242 True]"
    by (simp add: kill_world_facts running_launcher_facts)
  from do_kill_cases [of "- 1" "default_ctor (- 1)" "world_of []"] n
  have 3: "do_kill (- 1) (default_ctor (- 1), world_of []) =
      (Return (), (default_ctor (- 1), world_of []))"
    by blast
  show ?thesis using 1 2 3 by blast
qed

section \<open>Spawning with a zero timeout: properties\<close>

text \<open>
  What spawning may change, whatever the kernel answers: it issues no call of the
  \<^verbatim>\<open>running\<close> branch, and the state stays what it was or becomes \<^verbatim>\<open>running\<close>.
\<close>

definition spawn_frame :: "sys \<Rightarrow> sys \<Rightarrow> bool" where
  "spawn_frame s s' =
     (filter watches_or_reaps (calls (snd s')) = filter watches_or_reaps (calls (snd s)) \<and>
      (current_state (fst s') = current_state (fst s) \<or> current_state (fst s') = running))"

lemma spawn_frame_trans: "spawn_frame a b \<Longrightarrow> spawn_frame b c \<Longrightarrow> spawn_frame a c"
  by (auto simp: spawn_frame_def)

lemma and_then_frame:
  assumes "\<And>s. spawn_frame s (snd (m s))" and "\<And>x s. spawn_frame s (snd (f x s))"
  shows "spawn_frame s (snd (and_then m f s))"
proof -
  obtain out s1 where ms: "m s = (out, s1)"
    by (cases "m s")
  have a: "spawn_frame s s1"
    using assms(1) [of s] ms by simp
  show ?thesis
  proof (cases out)
    case (Return x)
    then have "snd (and_then m f s) = snd (f x s1)"
      using ms by (simp add: and_then_def)
    then show ?thesis
      using a assms(2) [of s1 x] spawn_frame_trans by metis
  next
    case (Throw e)
    then show ?thesis using a ms by (simp add: and_then_def)
  next
    case NoReturn
    then show ?thesis using a ms by (simp add: and_then_def)
  qed
qed

lemma pipe_init_calls: "calls (snd (snd (pipe_init p w))) = calls w @ [sys_pipe]"
  by (simp add: pipe_init_def os_def Let_def split: outcome.splits)

lemma init_frame:
  "spawn_frame s (snd (init_stdin s))" "spawn_frame s (snd (init_stdout s))"
  "spawn_frame s (snd (init_stderr s))"
  using pipe_init_calls [of "stdin_pipe (fst s)" "snd s"]
        pipe_init_calls [of "stdout_pipe (fst s)" "snd s"]
        pipe_init_calls [of "stderr_pipe (fst s)" "snd s"]
  by (auto simp: spawn_frame_def init_stdin_def init_stdout_def init_stderr_def split: prod.splits)

lemma close_frame:
  "spawn_frame s (snd (on_stdin_pipe close_in s))" "spawn_frame s (snd (on_stdin_pipe close_out s))"
  "spawn_frame s (snd (on_stdout_pipe close_in s))" "spawn_frame s (snd (on_stdout_pipe close_out s))"
  "spawn_frame s (snd (on_stderr_pipe close_in s))" "spawn_frame s (snd (on_stderr_pipe close_out s))"
  using close_fd_calls [of "fds0 (stdin_pipe (fst s))" "snd s"]
        close_fd_calls [of "fds1 (stdin_pipe (fst s))" "snd s"]
        close_fd_calls [of "fds0 (stdout_pipe (fst s))" "snd s"]
        close_fd_calls [of "fds1 (stdout_pipe (fst s))" "snd s"]
        close_fd_calls [of "fds0 (stderr_pipe (fst s))" "snd s"]
        close_fd_calls [of "fds1 (stderr_pipe (fst s))" "snd s"]
  by (auto simp: spawn_frame_def on_stdin_pipe_def on_stdout_pipe_def on_stderr_pipe_def
      close_in_def close_out_def split: prod.splits)

lemma checked_frame:
  "\<not> watches_or_reaps c \<Longrightarrow> spawn_frame s (snd (checked line c s))"
  using checked_calls [of line c "fst s" "snd s"]
  by (simp add: spawn_frame_def checked_eq [of line c "fst s" "snd s", simplified]
      split: outcome.splits)

lemma misc_frame:
  "spawn_frame s (snd (succeed x s))" "spawn_frame s (snd (now_ns s))"
  "spawn_frame s (snd (modify (\<lambda>l. l\<lparr>time_spawned_ns := t, handle := h, current_state := running\<rparr>) s))"
  by (simp_all add: spawn_frame_def succeed_def now_ns_def os_def modify_def)

lemma exec_in_child_try_frame: "spawn_frame s (snd (exec_in_child_try argv s))"
  unfolding exec_in_child_try_def
  by (intro and_then_frame close_frame checked_frame misc_frame) simp_all

lemma exec_in_child_frame: "spawn_frame s (snd (exec_in_child argv s))"
  using exec_in_child_try_frame [of s argv]
  by (auto simp: exec_in_child_def spawn_frame_def os_def Let_def split: prod.splits outcome.splits)

lemma spawn_frame_spawn: "spawn_frame s (snd (spawn s))"
  unfolding spawn_def
  apply (intro and_then_frame init_frame)
    apply (rule misc_frame)
   apply (rule checked_frame, simp)
  apply (simp split: if_splits)
  apply (intro conjI impI exec_in_child_frame and_then_frame close_frame misc_frame)
  done

text \<open>With a zero timeout the \<^verbatim>\<open>ready\<close> branch is spawning and nothing more.\<close>

lemma update_ready_zero:
  assumes "current_state l = ready"
  shows "update_and_get_state iph 0 (l, w) =
     (case spawn (l, w) of
        (Return _, s1) \<Rightarrow> (Return \<lparr>previous = ready, current = current_state (fst s1)\<rparr>, s1)
      | (Throw e, s1) \<Rightarrow> (Throw e, s1)
      | (NoReturn, s1) \<Rightarrow> (NoReturn, s1))"
  using assms
  by (subst update_and_get_state.simps) (simp add: Let_def split: prod.splits outcome.splits)

lemma pipe_init_ok:
  assumes "call_succeeds (answers w (length (calls w)))"
  shows "\<exists>p'. pipe_init p w = (Return (), p', w\<lparr>calls := calls w @ [sys_pipe]\<rparr>)"
  using assms
  by (simp add: pipe_init_def os_def Let_def syscall_helper_cases call_succeeds_def)

lemma init_ok:
  assumes "call_succeeds (answers (snd s) (length (calls (snd s))))"
  shows "\<exists>s'. init_stdin s = (Return (), s') \<and> answers (snd s') = answers (snd s) \<and>
           length (calls (snd s')) = Suc (length (calls (snd s)))"
    and "\<exists>s'. init_stdout s = (Return (), s') \<and> answers (snd s') = answers (snd s) \<and>
           length (calls (snd s')) = Suc (length (calls (snd s)))"
    and "\<exists>s'. init_stderr s = (Return (), s') \<and> answers (snd s') = answers (snd s) \<and>
           length (calls (snd s')) = Suc (length (calls (snd s)))"
  using pipe_init_ok [OF assms, of "stdin_pipe (fst s)"]
        pipe_init_ok [OF assms, of "stdout_pipe (fst s)"]
        pipe_init_ok [OF assms, of "stderr_pipe (fst s)"]
  by (auto simp: init_stdin_def init_stdout_def init_stderr_def)

lemma parent_tail_Return:
  "fst (and_then (on_stdin_pipe close_out) (\<lambda>_.
        and_then (on_stdout_pipe close_in) (\<lambda>_.
        and_then (on_stderr_pipe close_in) (\<lambda>_.
        and_then now_ns (\<lambda>t. modify (g t))))) s) = Return ()"
  by (simp add: and_then_def on_stdin_pipe_def on_stdout_pipe_def on_stderr_pipe_def
      now_ns_def modify_def Let_def split: prod.splits)

lemma spawn_ok:
  assumes "spawn_succeeds_in_parent w"
  shows "fst (spawn (l, w)) = Return ()"
proof -
  let ?n = "length (calls w)"
  from assms have a0: "call_succeeds (answers w ?n)" and a1: "call_succeeds (answers w (Suc ?n))"
    and a2: "call_succeeds (answers w (Suc (Suc ?n)))"
    and a3: "call_succeeds (answers w (Suc (Suc (Suc ?n))))"
    and nz: "r_ret (answers w (Suc (Suc (Suc ?n)))) \<noteq> 0"
    by (simp_all add: spawn_succeeds_in_parent_def eval_nat_numeral)
  obtain s1 where i1: "init_stdin (l, w) = (Return (), s1)" and w1: "answers (snd s1) = answers w"
    and n1: "length (calls (snd s1)) = Suc ?n"
    using init_ok(1) [of "(l, w)"] a0 by auto
  obtain s2 where i2: "init_stdout s1 = (Return (), s2)" and w2: "answers (snd s2) = answers w"
    and n2: "length (calls (snd s2)) = Suc (Suc ?n)"
    using init_ok(2) [of s1] a1 w1 n1 by auto
  obtain s3 where i3: "init_stderr s2 = (Return (), s3)" and w3: "answers (snd s3) = answers w"
    and n3: "length (calls (snd s3)) = Suc (Suc (Suc ?n))"
    using init_ok(3) [of s2] a2 w2 n2 by auto
  obtain s4 where f: "checked 156 sys_fork s3 = (Return (answers w (Suc (Suc (Suc ?n)))), s4)"
    using checked_ok [of "snd s3" 156 sys_fork "fst s3"] a3 w3 n3 by simp
  show ?thesis
    unfolding spawn_def
    by (simp add: and_then_Return [of init_stdin, OF i1] and_then_Return [of init_stdout, OF i2]
        and_then_Return [of init_stderr, OF i3] and_then_succeed
        and_then_Return [of "checked 156 sys_fork", OF f] nz parent_tail_Return)
qed

text \<open>
  Claim C10. Let the launcher be \<^verbatim>\<open>ready\<close> and the timeout 0. Whatever the kernel
  answers, the call issues no \<^verbatim>\<open>pidfd_open\<close>, \<^verbatim>\<open>poll\<close> or \<^verbatim>\<open>waitid\<close>, the launcher is
  not \<^verbatim>\<open>finished\<close> afterwards, and a call that returns returns \<open>{ready, running}\<close>
  and leaves the launcher \<^verbatim>\<open>running\<close>. The call does return, with that value, when
  the three \<^verbatim>\<open>pipe\<close> calls and \<^verbatim>\<open>fork\<close> succeed and this is the parent.
\<close>

theorem update_and_get_state_zero_timeout:
  assumes "current_state l = ready"
  shows "filter watches_or_reaps (calls (snd (snd (update_and_get_state iph 0 (l, w))))) =
           filter watches_or_reaps (calls w) \<and>
         current_state (fst (snd (update_and_get_state iph 0 (l, w)))) \<noteq> finished \<and>
         (\<forall>sts. fst (update_and_get_state iph 0 (l, w)) = Return sts \<longrightarrow>
            sts = \<lparr>previous = ready, current = running\<rparr> \<and>
            current_state (fst (snd (update_and_get_state iph 0 (l, w)))) = running) \<and>
         (spawn_succeeds_in_parent w \<longrightarrow>
            fst (update_and_get_state iph 0 (l, w)) = Return \<lparr>previous = ready, current = running\<rparr>)"
proof -
  obtain out s1 where sp: "spawn (l, w) = (out, s1)"
    by (cases "spawn (l, w)")
  have fr: "spawn_frame (l, w) s1"
    using spawn_frame_spawn [of "(l, w)"] sp by simp
  have run: "current_state (fst s1) = running" if "out = Return x" for x
    using spawn_Return_running [of "(l, w)" x s1] sp that by simp
  have ok: "out = Return ()" if "spawn_succeeds_in_parent w"
    using spawn_ok [OF that, of l] sp by simp
  have st: "snd (update_and_get_state iph 0 (l, w)) = s1"
    by (simp add: update_ready_zero [OF assms] sp split: outcome.splits)
  have res: "fst (update_and_get_state iph 0 (l, w)) =
      (case out of Return _ \<Rightarrow> Return \<lparr>previous = ready, current = current_state (fst s1)\<rparr>
       | Throw e \<Rightarrow> Throw e | NoReturn \<Rightarrow> NoReturn)"
    by (simp add: update_ready_zero [OF assms] sp split: outcome.splits)
  show ?thesis
    using fr run ok assms
    by (auto simp: st res spawn_frame_def split: outcome.splits)
qed

theorem update_and_get_state_zero_timeout_witness:
  "fst (update_and_get_state (- 1) 0 (ctor (- 1) ''/usr/bin/env'' [''sh''], spawn_world)) =
     Return \<lparr>previous = ready, current = running\<rparr> \<and>
   current_state (fst (snd (update_and_get_state (- 1) 0
     (ctor (- 1) ''/usr/bin/env'' [''sh''], spawn_world)))) = running \<and>
   filter watches_or_reaps (calls (snd (snd (update_and_get_state (- 1) 0
     (ctor (- 1) ''/usr/bin/env'' [''sh''], spawn_world))))) = []"
proof -
  have r: "current_state (ctor (- 1) ''/usr/bin/env'' [''sh'']) = ready"
    by (simp add: ctor_def)
  note t = update_and_get_state_zero_timeout [OF r, of "- 1" spawn_world]
  from t spawn_world_succeeds
  have 1: "fst (update_and_get_state (- 1) 0 (ctor (- 1) ''/usr/bin/env'' [''sh''], spawn_world)) =
     Return \<lparr>previous = ready, current = running\<rparr>"
    by blast
  from t 1 have 2: "current_state (fst (snd (update_and_get_state (- 1) 0
     (ctor (- 1) ''/usr/bin/env'' [''sh''], spawn_world)))) = running"
    by blast
  from t have 3: "filter watches_or_reaps (calls (snd (snd (update_and_get_state (- 1) 0
     (ctor (- 1) ''/usr/bin/env'' [''sh''], spawn_world))))) = []"
    by (simp add: spawn_world_facts)
  show ?thesis using 1 2 3 by blast
qed

section \<open>Moving: properties\<close>

lemma move_ctor_dest: "fst (move_ctor iph rhs) = rhs"
  by (simp add: move_ctor_def pipe_helper_move_def)

lemma move_ctor_source:
  "handle (snd (move_ctor iph rhs)) = iph"
  "current_state (snd (move_ctor iph rhs)) = uninitialzied"
  by (simp_all add: move_ctor_def pipe_helper_move_def)

lemma no_process_update:
  assumes "handle l = iph" and "current_state l = uninitialzied"
  shows "\<exists>m. update_and_get_state iph t (l, w) = (Throw (InvalidState m), (l, w))"
  using assms by (subst update_and_get_state.simps) (simp add: throw_def)

lemma no_process_finish:
  assumes "handle l = iph" and "current_state l = uninitialzied"
  shows "\<exists>m. finish_and_get_prev_state iph (l, w) = (Throw (InvalidState m), (l, w))"
    and "\<exists>m. finish iph (l, w) = (Throw (InvalidState m), (l, w))"
  using no_process_update [OF assms, of "- 1" w]
  by (auto simp: finish_and_get_prev_state_def finish_def and_then_def)

lemma no_process_stdin:
  assumes "handle l = iph"
  shows "\<exists>m. send_to_stdin iph d (l, w) = Some (Throw (InvalidState m), (l, w))"
    and "\<exists>m. close_stdin iph (l, w) = (Throw (InvalidState m), (l, w))"
  using assms by (simp_all add: send_to_stdin_def close_stdin_def manages_process_def throw_def)

lemma no_process_update_buffer:
  assumes "handle l = iph"
  shows "\<exists>m. update_buffer iph b (l, w) = (Throw (InvalidState m), (l, w))"
  using assms by (simp add: update_buffer_def manages_process_def throw_def)

lemma no_process_read:
  assumes "handle l = iph"
  shows "\<exists>m. read_stdout iph whole (l, w) = (Throw (InvalidState m), (l, w))"
    and "\<exists>m. read_stderr iph whole (l, w) = (Throw (InvalidState m), (l, w))"
    and "\<exists>m. get_stdout iph (l, w) = (Throw (InvalidState m), (l, w))"
    and "\<exists>m. get_stderr iph (l, w) = (Throw (InvalidState m), (l, w))"
  using no_process_update_buffer [OF assms, of True w] no_process_update_buffer [OF assms, of False w]
  by (auto simp: read_stdout_def read_stderr_def get_stdout_def get_stderr_def and_then_def)

lemma no_process_results:
  assumes "handle l = iph"
  shows "\<exists>m. time_running_ms iph (l, w) = (Throw (InvalidState m), (l, w))"
    and "\<exists>m. get_return_code iph (l, w) = (Throw (InvalidState m), (l, w))"
    and "do_kill iph (l, w) = (Return (), (l, w))"
  using assms
  by (simp_all add: time_running_ms_def get_return_code_def do_kill_def manages_process_def
      throw_def succeed_def)

lemma move_assign_store:
  assumes "this \<noteq> that"
  shows "fst (snd (move_assign iph this that (st, w))) this = st that"
    and "fst (snd (move_assign iph this that (st, w))) that = snd (move_ctor iph (st that))"
  using assms move_ctor_dest [of iph "st that"]
  by (auto simp: move_assign_def swap_launchers_def Let_def split: prod.splits)

text \<open>
  Claim C4. Move construction gives the new object every member of \<open>rhs\<close> and leaves
  \<open>rhs\<close> as \<open>src\<close>: no process managed, state \<^verbatim>\<open>uninitialzied\<close>. On \<open>src\<close>, in any
  world, every operation that depends on the state throws the state error and changes
  nothing, and \<^verbatim>\<open>do_kill\<close> returns without doing anything. Move assignment between two
  distinct objects leaves the destination with every member of the source and the
  source as that same \<open>src\<close>. (Assigning an object to itself does nothing, line 95.)
\<close>

theorem moved_from_source:
  assumes "src = snd (move_ctor iph rhs)"
  shows "fst (move_ctor iph rhs) = rhs \<and>
    \<not> manages_process iph src \<and> current_state src = uninitialzied \<and>
    (\<exists>m. update_and_get_state iph t (src, w) = (Throw (InvalidState m), (src, w))) \<and>
    (\<exists>m. finish_and_get_prev_state iph (src, w) = (Throw (InvalidState m), (src, w))) \<and>
    (\<exists>m. finish iph (src, w) = (Throw (InvalidState m), (src, w))) \<and>
    (\<exists>m. send_to_stdin iph d (src, w) = Some (Throw (InvalidState m), (src, w))) \<and>
    (\<exists>m. close_stdin iph (src, w) = (Throw (InvalidState m), (src, w))) \<and>
    (\<exists>m. read_stdout iph whole (src, w) = (Throw (InvalidState m), (src, w))) \<and>
    (\<exists>m. read_stderr iph whole (src, w) = (Throw (InvalidState m), (src, w))) \<and>
    (\<exists>m. get_stdout iph (src, w) = (Throw (InvalidState m), (src, w))) \<and>
    (\<exists>m. get_stderr iph (src, w) = (Throw (InvalidState m), (src, w))) \<and>
    (\<exists>m. time_running_ms iph (src, w) = (Throw (InvalidState m), (src, w))) \<and>
    (\<exists>m. get_return_code iph (src, w) = (Throw (InvalidState m), (src, w))) \<and>
    do_kill iph (src, w) = (Return (), (src, w)) \<and>
    (this \<noteq> that \<and> rhs = st that \<longrightarrow>
       fst (snd (move_assign iph this that (st, w'))) this = rhs \<and>
       fst (snd (move_assign iph this that (st, w'))) that = src)"
proof -
  have h: "handle src = iph" and u: "current_state src = uninitialzied"
    using assms move_ctor_source [of iph rhs] by simp_all
  show ?thesis
    apply (intro conjI impI)
                   apply (rule move_ctor_dest)
                  apply (simp add: manages_process_def h)
                 apply (rule u)
                apply (rule no_process_update [OF h u])
               apply (rule no_process_finish(1) [OF h u])
              apply (rule no_process_finish(2) [OF h u])
             apply (rule no_process_stdin(1) [OF h])
            apply (rule no_process_stdin(2) [OF h])
           apply (rule no_process_read(1) [OF h])
          apply (rule no_process_read(2) [OF h])
         apply (rule no_process_read(3) [OF h])
        apply (rule no_process_read(4) [OF h])
       apply (rule no_process_results(1) [OF h])
      apply (rule no_process_results(2) [OF h])
     apply (rule no_process_results(3) [OF h])
    apply (simp add: move_assign_store)
    apply (simp add: move_assign_store assms)
    done
qed

text \<open>A store with a default-constructed launcher everywhere but at address 1.\<close>

definition sample_store :: store where
  "sample_store = (\<lambda>a. default_ctor (- 1))(Suc 0 := running_launcher)"

theorem moved_from_source_witness:
  "fst (move_ctor (- 1) running_launcher) = running_launcher \<and>
   \<not> manages_process (- 1) (snd (move_ctor (- 1) running_launcher)) \<and>
   current_state (snd (move_ctor (- 1) running_launcher)) = uninitialzied \<and>
   throws_invalid_state (fst (update_and_get_state (- 1) 0
     (snd (move_ctor (- 1) running_launcher), world_of []))) \<and>
   throws_invalid_state (fst (read_stdout (- 1) False
     (snd (move_ctor (- 1) running_launcher), world_of []))) \<and>
   throws_invalid_state (fst (get_return_code (- 1)
     (snd (move_ctor (- 1) running_launcher), world_of []))) \<and>
   do_kill (- 1) (snd (move_ctor (- 1) running_launcher), world_of []) =
     (Return (), (snd (move_ctor (- 1) running_launcher), world_of [])) \<and>
   fst (snd (move_assign (- 1) 0 (Suc 0) (sample_store, world_of []))) 0 = running_launcher \<and>
   fst (snd (move_assign (- 1) 0 (Suc 0) (sample_store, world_of []))) (Suc 0) =
     snd (move_ctor (- 1) running_launcher)"
proof -
  note t = moved_from_source [where src = "snd (move_ctor (- 1) running_launcher)"
      and iph = "- 1" and rhs = running_launcher and w = "world_of []" and t = 0
      and whole = False and this = 0 and that = "Suc 0" and st = sample_store
      and w' = "world_of []", OF refl]
  have st: "(0::nat) \<noteq> Suc 0 \<and> running_launcher = sample_store (Suc 0)"
    by (simp add: sample_store_def)
  note t3 = t [THEN conjunct2, THEN conjunct2, THEN conjunct2]
  note t8 = t3 [THEN conjunct2, THEN conjunct2, THEN conjunct2, THEN conjunct2, THEN conjunct2]
  note t13 = t8 [THEN conjunct2, THEN conjunct2, THEN conjunct2, THEN conjunct2, THEN conjunct2]
  have 1: "fst (move_ctor (- 1) running_launcher) = running_launcher"
    by (rule t [THEN conjunct1])
  have 2: "\<not> manages_process (- 1) (snd (move_ctor (- 1) running_launcher))"
    by (rule t [THEN conjunct2, THEN conjunct1])
  have 3: "current_state (snd (move_ctor (- 1) running_launcher)) = uninitialzied"
    by (rule t [THEN conjunct2, THEN conjunct2, THEN conjunct1])
  obtain m1 where "update_and_get_state (- 1) 0 (snd (move_ctor (- 1) running_launcher), world_of []) =
      (Throw (InvalidState m1), (snd (move_ctor (- 1) running_launcher), world_of []))"
    using t3 [THEN conjunct1] by blast
  then have a: "throws_invalid_state (fst (update_and_get_state (- 1) 0
     (snd (move_ctor (- 1) running_launcher), world_of [])))"
    by (simp add: throws_invalid_state_def)
  obtain m2 where "read_stdout (- 1) False (snd (move_ctor (- 1) running_launcher), world_of []) =
      (Throw (InvalidState m2), (snd (move_ctor (- 1) running_launcher), world_of []))"
    using t8 [THEN conjunct1] by blast
  then have b: "throws_invalid_state (fst (read_stdout (- 1) False
     (snd (move_ctor (- 1) running_launcher), world_of [])))"
    by (simp add: throws_invalid_state_def)
  obtain m3 where "get_return_code (- 1) (snd (move_ctor (- 1) running_launcher), world_of []) =
      (Throw (InvalidState m3), (snd (move_ctor (- 1) running_launcher), world_of []))"
    using t13 [THEN conjunct1] by blast
  then have c: "throws_invalid_state (fst (get_return_code (- 1)
     (snd (move_ctor (- 1) running_launcher), world_of [])))"
    by (simp add: throws_invalid_state_def)
  have d: "do_kill (- 1) (snd (move_ctor (- 1) running_launcher), world_of []) =
     (Return (), (snd (move_ctor (- 1) running_launcher), world_of []))"
    by (rule t13 [THEN conjunct2, THEN conjunct1])
  have st: "(0::nat) \<noteq> Suc 0 \<and> running_launcher = sample_store (Suc 0)"
    by (simp add: sample_store_def)
  have m: "fst (snd (move_assign (- 1) 0 (Suc 0) (sample_store, world_of []))) 0 =
      running_launcher \<and>
   fst (snd (move_assign (- 1) 0 (Suc 0) (sample_store, world_of []))) (Suc 0) =
     snd (move_ctor (- 1) running_launcher)"
    using t13 [THEN conjunct2, THEN conjunct2] st by blast
  show ?thesis
    using 1 2 3 a b c d m by blast
qed

section \<open>Reading the output: properties\<close>

text \<open>The invariant of the two cursors.\<close>

definition cursor_inv :: "exec_path_args \<Rightarrow> bool" where
  "cursor_inv l =
     (0 \<le> stdout_consumed_bytes l \<and> stdout_consumed_bytes l \<le> int (length (stdout_buffer l)) \<and>
      0 \<le> stderr_consumed_bytes l \<and> stderr_consumed_bytes l \<le> int (length (stderr_buffer l)))"

text \<open>The views copied and put together; \<open>None\<close> when one of them was outside the buffer.\<close>

fun concat_views :: "string option list \<Rightarrow> string option" where
  "concat_views [] = Some []"
| "concat_views (None # rs) = None"
| "concat_views (Some x # rs) = map_option ((@) x) (concat_views rs)"

text \<open>
  A caller that calls \<^verbatim>\<open>read_stdout(false)\<close> \<open>n\<close> times in a row and copies what each
  view shows when it gets it (the next call may move the buffer). Whatever the child
  writes in between enters the buffer when the next call drains the pipe.
\<close>

fun read_stdout_increments :: "int \<Rightarrow> nat \<Rightarrow> sys \<Rightarrow> string option list outcome \<times> sys" where
  "read_stdout_increments iph 0 s = (Return [], s)"
| "read_stdout_increments iph (Suc n) s =
     (case read_stdout iph False s of
        (Return v, s1) \<Rightarrow>
          (case read_stdout_increments iph n s1 of
             (Return rs, s2) \<Rightarrow> (Return (sv_chars (stdout_buffer (fst s1)) v # rs), s2)
           | (Throw e, s2) \<Rightarrow> (Throw e, s2)
           | (NoReturn, s2) \<Rightarrow> (NoReturn, s2))
      | (Throw e, s1) \<Rightarrow> (Throw e, s1)
      | (NoReturn, s1) \<Rightarrow> (NoReturn, s1))"

text \<open>
  The scenario of claim C3: \<open>n\<close> incremental reads, then one read of the whole. The
  result is what the increments add up to and what the final read shows.
\<close>

definition increments_then_whole :: "int \<Rightarrow> nat \<Rightarrow> sys \<Rightarrow> (string option \<times> string option) option" where
  "increments_then_whole iph n s =
     (case read_stdout_increments iph n s of
        (Return rs, s1) \<Rightarrow>
          (case read_stdout iph True s1 of
             (Return v, s2) \<Rightarrow> Some (concat_views rs, sv_chars (stdout_buffer (fst s2)) v)
           | (Throw e, s2) \<Rightarrow> None
           | (NoReturn, s2) \<Rightarrow> None)
      | (Throw e, s1) \<Rightarrow> None
      | (NoReturn, s1) \<Rightarrow> None)"

text \<open>Sample worlds: what the child has written when each drain happens.\<close>

definition output_world :: world where
  "output_world = world_of [avail_reply 3, read_reply ''abc'', avail_reply 0,
                            avail_reply 2, read_reply ''de'', avail_reply 0]"

definition chatty_world :: world where
  "chatty_world = world_of [avail_reply 2, read_reply ''ab'', avail_reply 1, read_reply ''c'',
                            avail_reply 1, read_reply ''d'']"

definition consume_world :: world where
  "consume_world = world_of [avail_reply 8, read_reply ''out 111\<newline>'', avail_reply 0,
                             avail_reply 8, read_reply ''out 222\<newline>'']"

definition short_world :: world where
  "short_world = world_of [avail_reply 8, read_reply ''out 111\<newline>'', avail_reply 0,
                           avail_reply 3, read_reply ''abc'']"

text \<open>The launcher after one \<^verbatim>\<open>read_stdout(false)\<close>, and after the \<^verbatim>\<open>get_stdout()\<close> that follows.\<close>

definition after_increment :: "world \<Rightarrow> sys" where
  "after_increment w = snd (read_stdout (- 1) False (running_launcher, w))"

definition after_get_stdout :: "world \<Rightarrow> sys" where
  "after_get_stdout w = snd (get_stdout (- 1) (after_increment w))"

text \<open>The definitions a closed scenario is evaluated with.\<close>

lemmas eval_defs = read_stdout_def update_buffer_def read_pipe_def os_def and_then_def
  syscall_helper_def check_syscall_ret_val_def static_cast_int_def get_buffer_def sv_chars_def
  overwrite_def manages_process_def get_out_def invalid_fd_def Let_def
  world_of_def running_launcher_def quiet_reply_def avail_reply_def read_reply_def

lemma overwrite_resized:
  "overwrite (buffer @ replicate n c) (length buffer) data =
     buffer @ take n (data @ replicate (n - length data) c)"
  by (simp add: overwrite_def)

lemma read_pipe_appends: "\<exists>d. fst (snd (read_pipe fd buffer w)) = buffer @ d"
  by (auto simp: read_pipe_def Let_def overwrite_resized split: prod.splits outcome.splits)

lemma update_buffer_stdout:
  assumes "update_buffer iph True (l, w) = (out, (l', w'))"
  shows "\<exists>d. l' = l\<lparr>stdout_buffer := stdout_buffer l @ d\<rparr>"
proof (cases "manages_process iph l")
  case False
  then have "l' = l" using assms by (auto simp: update_buffer_def throw_def)
  then show ?thesis by (intro exI [of _ "[]"]) simp
next
  case True
  obtain o1 buf w1 where rp: "read_pipe (get_out (stdout_pipe l)) (stdout_buffer l) w = (o1, buf, w1)"
    by (cases "read_pipe (get_out (stdout_pipe l)) (stdout_buffer l) w") auto
  obtain d where "buf = stdout_buffer l @ d"
    using read_pipe_appends [of "get_out (stdout_pipe l)" "stdout_buffer l" w] rp by auto
  then show ?thesis using assms True rp by (auto simp: update_buffer_def Let_def)
qed

lemma update_buffer_stderr:
  assumes "update_buffer iph False (l, w) = (out, (l', w'))"
  shows "\<exists>d. l' = l\<lparr>stderr_buffer := stderr_buffer l @ d\<rparr>"
proof (cases "manages_process iph l")
  case False
  then have "l' = l" using assms by (auto simp: update_buffer_def throw_def)
  then show ?thesis by (intro exI [of _ "[]"]) simp
next
  case True
  obtain o1 buf w1 where rp: "read_pipe (get_out (stderr_pipe l)) (stderr_buffer l) w = (o1, buf, w1)"
    by (cases "read_pipe (get_out (stderr_pipe l)) (stderr_buffer l) w") auto
  obtain d where "buf = stderr_buffer l @ d"
    using read_pipe_appends [of "get_out (stderr_pipe l)" "stderr_buffer l" w] rp by auto
  then show ?thesis using assms True rp by (auto simp: update_buffer_def Let_def)
qed

lemma read_stdout_Return:
  assumes "read_stdout iph whole (l, w) = (Return v, (l', w'))"
  shows "\<exists>d. l' = l\<lparr>stdout_buffer := stdout_buffer l @ d,
                    stdout_consumed_bytes := int (length (stdout_buffer l @ d))\<rparr> \<and>
              v = fst (get_buffer (stdout_buffer l @ d) (stdout_consumed_bytes l) whole)"
proof -
  obtain out la wa where ub: "update_buffer iph True (l, w) = (out, (la, wa))"
    by (cases "update_buffer iph True (l, w)") auto
  obtain d where la: "la = l\<lparr>stdout_buffer := stdout_buffer l @ d\<rparr>"
    using update_buffer_stdout [OF ub] by auto
  show ?thesis
    using assms ub
    by (intro exI [of _ d])
       (auto simp: read_stdout_def and_then_def la get_buffer_def split: outcome.splits if_splits)
qed


lemma sv_chars_increment:
  assumes "0 \<le> c" and "c \<le> int (length B)" and "length B < 2 ^ 64"
  shows "sv_chars B (fst (get_buffer B c False)) = Some (drop (nat c) B)"
proof -
  have "0 \<le> int (length B) - c" and "int (length B) - c < 18446744073709551616"
    using assms by simp_all
  then have md: "(int (length B) - c) mod 18446744073709551616 = int (length B) - c"
    by simp
  have v: "fst (get_buffer B c False) = \<lparr>sv_start = c, sv_size = nat (int (length B) - c)\<rparr>"
    by (simp add: get_buffer_def md)
  have "length B - nat c \<le> nat (int (length B) - c)"
    using assms(1,2) by simp
  then show ?thesis
    using assms(1,2) by (simp add: v sv_chars_def)
qed

lemma sv_chars_whole: "sv_chars B (fst (get_buffer B c True)) = Some B"
  by (simp add: get_buffer_def sv_chars_def)

lemma segment_split:
  assumes "B1 = Ba @ d'" and "c0 \<le> length Ba" and "length Ba \<le> c1"
  shows "drop c0 Ba @ drop (length Ba) (take c1 B1) = drop c0 (take c1 B1)"
  using assms by simp

lemma increments_segment:
  assumes "read_stdout_increments iph n (l, w) = (Return rs, (l1, w1))"
    and "0 \<le> stdout_consumed_bytes l"
    and "stdout_consumed_bytes l \<le> int (length (stdout_buffer l))"
    and "length (stdout_buffer l1) < 2 ^ 64"
  shows "(\<exists>d. stdout_buffer l1 = stdout_buffer l @ d) \<and>
         stdout_consumed_bytes l \<le> stdout_consumed_bytes l1 \<and>
         stdout_consumed_bytes l1 \<le> int (length (stdout_buffer l1)) \<and>
         (0 < n \<longrightarrow> stdout_consumed_bytes l1 = int (length (stdout_buffer l1))) \<and>
         concat_views rs =
           Some (drop (nat (stdout_consumed_bytes l))
                   (take (nat (stdout_consumed_bytes l1)) (stdout_buffer l1)))"
  using assms
proof (induction n arbitrary: l w rs)
  case 0
  then show ?case by simp
next
  case (Suc n)
  obtain v la wa rs' where r1: "read_stdout iph False (l, w) = (Return v, (la, wa))"
    and r2: "read_stdout_increments iph n (la, wa) = (Return rs', (l1, w1))"
    and rs: "rs = sv_chars (stdout_buffer la) v # rs'"
    using Suc.prems(1) by (auto split: prod.splits outcome.splits)
  obtain d where la: "la = l\<lparr>stdout_buffer := stdout_buffer l @ d,
        stdout_consumed_bytes := int (length (stdout_buffer l @ d))\<rparr>"
    and v: "v = fst (get_buffer (stdout_buffer l @ d) (stdout_consumed_bytes l) False)"
    using read_stdout_Return [OF r1] by auto
  let ?B0 = "stdout_buffer l" and ?Ba = "stdout_buffer l @ d" and ?B1 = "stdout_buffer l1"
  let ?c0 = "stdout_consumed_bytes l" and ?c1 = "stdout_consumed_bytes l1"
  have ia: "0 \<le> stdout_consumed_bytes la" "stdout_consumed_bytes la \<le> int (length (stdout_buffer la))"
    by (simp_all add: la)
  note IH = Suc.IH [OF r2 ia Suc.prems(4)]
  from IH obtain d' where b1: "?B1 = ?Ba @ d'"
    by (auto simp: la)
  from IH have c1: "int (length ?Ba) \<le> ?c1" "?c1 \<le> int (length ?B1)"
    by (simp_all add: la)
  from IH have cv: "concat_views rs' = Some (drop (length ?Ba) (take (nat ?c1) ?B1))"
    by (simp add: la nat_int_add)
  have "length ?Ba < 2 ^ 64"
    using Suc.prems(4) b1 by simp
  then have chars: "sv_chars (stdout_buffer la) v = Some (drop (nat ?c0) ?Ba)"
    using sv_chars_increment [of ?c0 ?Ba] Suc.prems(2,3) by (simp add: v la)
  have seg: "drop (nat ?c0) ?Ba @ drop (length ?Ba) (take (nat ?c1) ?B1) =
        drop (nat ?c0) (take (nat ?c1) ?B1)"
  proof (rule segment_split [OF b1])
    show "nat ?c0 \<le> length ?Ba" using Suc.prems(2,3) by simp
    show "length ?Ba \<le> nat ?c1" using c1 by simp
  qed
  have pre: "\<exists>d. ?B1 = ?B0 @ d"
    using b1 by simp
  have full: "?c1 = int (length ?B1)"
  proof (cases n)
    case 0
    then have "l1 = la" using r2 by simp
    then show ?thesis by (simp add: la)
  next
    case (Suc m)
    then show ?thesis using IH by simp
  qed
  show ?case
    using pre c1 Suc.prems(3) seg full by (simp add: rs chars cv)
qed

text \<open>
  Claim C3, as the code has it. Let the cursor be inside the buffer, let \<open>n\<close> calls of
  \<^verbatim>\<open>read_stdout(false)\<close> return, and then a call of \<^verbatim>\<open>read_stdout(true)\<close>. The final call
  shows the whole buffer, and the whole buffer is: the bytes consumed before the first
  incremental call, then the increments put together, then the bytes not yet consumed
  when the final call returns (those it drained itself). No byte of the increments is
  dropped or repeated. So the final result equals the increments put together when
  the cursor started at 0, at least one incremental call was made and the final call
  drained nothing new.
\<close>

theorem increments_then_whole_result:
  assumes "0 \<le> stdout_consumed_bytes l"
    and "stdout_consumed_bytes l \<le> int (length (stdout_buffer l))"
    and "read_stdout_increments iph n (l, w) = (Return rs, (l1, w1))"
    and "read_stdout iph True (l1, w1) = (Return v, (l2, w2))"
    and "length (stdout_buffer l2) < 2 ^ 64"
  shows "(\<exists>incr. concat_views rs = Some incr \<and>
            sv_chars (stdout_buffer l2) v =
              Some (take (nat (stdout_consumed_bytes l)) (stdout_buffer l) @ incr @
                    drop (nat (stdout_consumed_bytes l1)) (stdout_buffer l2))) \<and>
         (stdout_consumed_bytes l = 0 \<and> 0 < n \<and> stdout_buffer l2 = stdout_buffer l1 \<longrightarrow>
            sv_chars (stdout_buffer l2) v = concat_views rs)"
proof -
  let ?B0 = "stdout_buffer l" and ?B1 = "stdout_buffer l1" and ?B2 = "stdout_buffer l2"
  let ?c0 = "nat (stdout_consumed_bytes l)" and ?c1 = "nat (stdout_consumed_bytes l1)"
  obtain d where l2: "?B2 = ?B1 @ d" and v: "v = fst (get_buffer ?B2 (stdout_consumed_bytes l1) True)"
    using read_stdout_Return [OF assms(4)] by auto
  have b1: "length ?B1 < 2 ^ 64"
    using assms(5) l2 by simp
  note seg = increments_segment [OF assms(3) assms(1) assms(2) b1]
  from seg obtain d0 where p: "?B1 = ?B0 @ d0"
    by auto
  from seg have "stdout_consumed_bytes l \<le> stdout_consumed_bytes l1"
    and "stdout_consumed_bytes l1 \<le> int (length ?B1)"
    by simp_all
  then have c: "?c0 \<le> ?c1" "?c1 \<le> length ?B1"
    using assms(1) by simp_all
  from seg have cv: "concat_views rs = Some (drop ?c0 (take ?c1 ?B1))"
    by simp
  from seg have full: "0 < n \<Longrightarrow> ?c1 = length ?B1"
    by simp
  have whole: "sv_chars ?B2 v = Some ?B2"
    by (simp add: v sv_chars_whole)
  have c0le: "?c0 \<le> length ?B0"
    using assms(1,2) by simp
  have "take ?c0 (take ?c1 ?B1) = take ?c0 ?B1"
    using c(1) by (simp add: min_def)
  also have "\<dots> = take ?c0 ?B0"
    using c0le by (simp add: p)
  finally have t0: "take ?c0 ?B0 = take ?c0 (take ?c1 ?B1)"
    by simp
  have "take ?c1 ?B2 = take ?c1 ?B1"
    using c l2 by simp
  then have "?B2 = take ?c1 ?B1 @ drop ?c1 ?B2"
    by (metis append_take_drop_id)
  also have "take ?c1 ?B1 = take ?c0 ?B0 @ drop ?c0 (take ?c1 ?B1)"
    using t0 by (metis append_take_drop_id)
  finally have split: "?B2 = take ?c0 ?B0 @ drop ?c0 (take ?c1 ?B1) @ drop ?c1 ?B2"
    by simp
  have first: "\<exists>incr. concat_views rs = Some incr \<and>
      sv_chars ?B2 v = Some (take ?c0 ?B0 @ incr @ drop ?c1 ?B2)"
    using cv whole split by simp
  have second: "sv_chars ?B2 v = concat_views rs"
    if "stdout_consumed_bytes l = 0" and "0 < n" and "?B2 = ?B1"
    using that full cv whole by simp
  show ?thesis
    using first second by blast
qed

theorem increments_then_whole_result_witness:
  "increments_then_whole (- 1) 3 (running_launcher, output_world) =
     Some (Some ''abcde'', Some ''abcde'')"
proof -
  obtain out s1 where a: "read_stdout_increments (- 1) 3 (running_launcher, output_world) = (out, s1)"
    by (cases "read_stdout_increments (- 1) 3 (running_launcher, output_world)")
  have out: "out = Return [Some ''abc'', Some [], Some ''de'']"
    using a [symmetric] by (simp add: output_world_def eval_defs eval_nat_numeral)
  have s1: "snd (read_stdout_increments (- 1) 3 (running_launcher, output_world)) = s1"
    using a by simp
  obtain out2 s2 where b: "read_stdout (- 1) True s1 = (out2, s2)"
    by (cases "read_stdout (- 1) True s1")
  have out2: "out2 = Return \<lparr>sv_start = 0, sv_size = 5\<rparr>" and B2: "stdout_buffer (fst s2) = ''abcde''"
    using b [symmetric]
    by (simp_all add: s1 [symmetric] output_world_def eval_defs eval_nat_numeral)
  have i: "0 \<le> stdout_consumed_bytes running_launcher"
    "stdout_consumed_bytes running_launcher \<le> int (length (stdout_buffer running_launcher))"
    by (simp_all add: running_launcher_def)
  have bound: "length (stdout_buffer (fst s2)) < 2 ^ 64"
    by (simp add: B2)
  note t = increments_then_whole_result [OF i, of "- 1" 3 output_world _ "fst s1" "snd s1"
      _ "fst s2" "snd s2"]
  have "\<exists>incr. concat_views [Some ''abc'', Some [], Some ''de''] = Some incr \<and>
      sv_chars (stdout_buffer (fst s2)) \<lparr>sv_start = 0, sv_size = 5\<rparr> =
        Some (take (nat (stdout_consumed_bytes running_launcher)) (stdout_buffer running_launcher) @
          incr @ drop (nat (stdout_consumed_bytes (fst s1))) (stdout_buffer (fst s2)))"
    using t [of "[Some ''abc'', Some [], Some ''de'']" "\<lparr>sv_start = 0, sv_size = 5\<rparr>"] a b out out2 bound
    by simp
  then show ?thesis
    using a b out out2 B2 by (simp add: increments_then_whole_def sv_chars_def)
qed

text \<open>
  Claim C3 as stated fails on a launcher whose cursor an earlier
  \<^verbatim>\<open>read_stdout(true)\<close> has advanced and whose child writes on: after
  \<^verbatim>\<open>read_stdout(true)\<close> has returned \<open>ab\<close>, one \<^verbatim>\<open>read_stdout(false)\<close> returns \<open>c\<close>, and
  the final \<^verbatim>\<open>read_stdout(true)\<close>, which drains \<open>d\<close>, returns \<open>abcd\<close>.
\<close>

theorem increments_then_whole_counterexample:
  "increments_then_whole (- 1) 1 (snd (read_stdout (- 1) True (running_launcher, chatty_world))) =
     Some (Some ''c'', Some ''abcd'')"
  by (simp add: increments_then_whole_def chatty_world_def eval_defs eval_nat_numeral)

section \<open>\<^verbatim>\<open>get_stdout\<close> and the cursor\<close>

text \<open>
  Whenever \<^verbatim>\<open>get_stdout\<close> returns, it returns the buffer with what it drained, leaves
  the buffer empty, and leaves the cursor where it was.
\<close>

lemma get_stdout_Return:
  assumes "get_stdout iph (l, w) = (Return b, (l', w'))"
  shows "\<exists>d. b = stdout_buffer l @ d \<and> stdout_buffer l' = [] \<and>
             stdout_consumed_bytes l' = stdout_consumed_bytes l"
proof -
  obtain out la wa where ub: "update_buffer iph True (l, w) = (out, (la, wa))"
    by (cases "update_buffer iph True (l, w)") auto
  obtain d where la: "la = l\<lparr>stdout_buffer := stdout_buffer l @ d\<rparr>"
    using update_buffer_stdout [OF ub] by auto
  show ?thesis
    using assms ub
    by (intro exI [of _ d]) (auto simp: get_stdout_def and_then_def la split: outcome.splits)
qed

text \<open>
  Claim C1 against the code. The child writes 8 bytes, \<^verbatim>\<open>read_stdout(false)\<close> returns
  them, \<^verbatim>\<open>get_stdout()\<close> returns them again and empties the buffer, and the cursor is
  still 8, not 0. The child writes 8 bytes more: the next \<^verbatim>\<open>read_stdout(false)\<close> puts
  them in the buffer and returns an empty view, so the caller never sees them as an
  increment.
\<close>

theorem get_stdout_keeps_cursor:
  "fst (read_stdout (- 1) False (running_launcher, consume_world)) =
     Return \<lparr>sv_start = 0, sv_size = 8\<rparr> \<and>
   fst (get_stdout (- 1) (after_increment consume_world)) = Return ''out 111\<newline>'' \<and>
   stdout_buffer (fst (after_get_stdout consume_world)) = [] \<and>
   stdout_consumed_bytes (fst (after_get_stdout consume_world)) = 8 \<and>
   fst (read_stdout (- 1) False (after_get_stdout consume_world)) =
     Return \<lparr>sv_start = 8, sv_size = 0\<rparr> \<and>
   stdout_buffer (fst (snd (read_stdout (- 1) False (after_get_stdout consume_world)))) =
     ''out 222\<newline>''"
  by (simp add: after_get_stdout_def after_increment_def get_stdout_def consume_world_def
      eval_defs)

text \<open>
  The reads keep the invariant, whatever their outcome, and a move hands it to the
  object constructed; it is \<^verbatim>\<open>get_stdout\<close> and \<^verbatim>\<open>get_stderr\<close> that do not.
\<close>

lemma read_stdout_cursor_inv:
  assumes "cursor_inv l"
  shows "cursor_inv (fst (snd (read_stdout iph whole (l, w))))"
proof -
  obtain out la wa where ub: "update_buffer iph True (l, w) = (out, (la, wa))"
    by (cases "update_buffer iph True (l, w)") auto
  obtain d where la: "la = l\<lparr>stdout_buffer := stdout_buffer l @ d\<rparr>"
    using update_buffer_stdout [OF ub] by auto
  show ?thesis
    using assms ub
    by (auto simp: read_stdout_def and_then_def la get_buffer_def cursor_inv_def
        split: outcome.splits if_splits)
qed

lemma read_stderr_cursor_inv:
  assumes "cursor_inv l"
  shows "cursor_inv (fst (snd (read_stderr iph whole (l, w))))"
proof -
  obtain out la wa where ub: "update_buffer iph False (l, w) = (out, (la, wa))"
    by (cases "update_buffer iph False (l, w)") auto
  obtain d where la: "la = l\<lparr>stderr_buffer := stderr_buffer l @ d\<rparr>"
    using update_buffer_stderr [OF ub] by auto
  show ?thesis
    using assms ub
    by (auto simp: read_stderr_def and_then_def la get_buffer_def cursor_inv_def
        split: outcome.splits if_splits)
qed

lemma move_ctor_cursor_inv:
  "cursor_inv rhs \<Longrightarrow> cursor_inv (fst (move_ctor iph rhs))"
  by (simp add: move_ctor_dest)

text \<open>
  Claim C2 against the code. The invariant holds after \<^verbatim>\<open>read_stdout(false)\<close> and is
  broken by \<^verbatim>\<open>get_stdout()\<close>: the cursor is 8, the buffer is empty. When 3 bytes follow,
  the view \<^verbatim>\<open>read_stdout(false)\<close> returns starts past the end of the buffer and spans
  \<open>2 ^ 64 - 5\<close> characters.
\<close>

theorem get_stdout_breaks_cursor_inv:
  "cursor_inv (fst (after_increment short_world)) \<and>
   \<not> cursor_inv (fst (after_get_stdout short_world)) \<and>
   sv_chars (stdout_buffer (fst (snd (read_stdout (- 1) False (after_get_stdout short_world)))))
     (case fst (read_stdout (- 1) False (after_get_stdout short_world)) of
        Return v \<Rightarrow> v | Throw e \<Rightarrow> \<lparr>sv_start = 0, sv_size = 0\<rparr>
      | NoReturn \<Rightarrow> \<lparr>sv_start = 0, sv_size = 0\<rparr>) = None"
  by (simp add: after_get_stdout_def after_increment_def get_stdout_def short_world_def
      cursor_inv_def eval_defs)

end
